theory Spec2Isabelle
  imports Complex_Main
begin

section \<open>Text\<close>

text \<open>
  JavaScript strings are sequences of UTF-16 code units. The program's texts are modelled
  as \<^typ>\<open>string\<close>, that is as sequences of code units in the range 0..255; the string
  values produced by \<open>JSON.parse\<close>, which can hold any code unit through a
  \<open>\uXXXX\<close> escape, are lists of code units (\<^typ>\<open>nat list\<close>).
\<close>

definition is_space :: "char \<Rightarrow> bool" where
  \<comment> \<open>the class \<open>\s\<close> and the characters \<open>trim()\<close> strips, below code unit 256\<close>
  "is_space c = (of_char c \<in> set [9, 10, 11, 12, 13, 32, 160 :: nat])"

definition trim :: "string \<Rightarrow> string" where
  \<comment> \<open>\<open>s.trim()\<close>\<close>
  "trim s = rev (dropWhile is_space (rev (dropWhile is_space s)))"

fun join :: "string \<Rightarrow> string list \<Rightarrow> string" where
  \<comment> \<open>\<open>xs.join(sep)\<close>\<close>
  "join sep [] = []"
| "join sep [x] = x"
| "join sep (x # y # ys) = x @ sep @ join sep (y # ys)"

fun starts_with :: "string \<Rightarrow> string \<Rightarrow> bool" where
  "starts_with s [] = True"
| "starts_with [] (p # ps) = False"
| "starts_with (c # cs) (p # ps) = (c = p \<and> starts_with cs ps)"

fun str_includes :: "string \<Rightarrow> string \<Rightarrow> bool" where
  \<comment> \<open>\<open>s.includes(sub)\<close>\<close>
  "str_includes [] sub = (sub = [])"
| "str_includes (c # cs) sub = (starts_with (c # cs) sub \<or> str_includes cs sub)"

definition to_upper :: "nat \<Rightarrow> nat" where
  \<comment> \<open>on code units: the letters a-z go to A-Z\<close>
  "to_upper n = (if 97 \<le> n \<and> n \<le> 122 then n - 32 else n)"

definition to_lower :: "nat \<Rightarrow> nat" where
  "to_lower n = (if 65 \<le> n \<and> n \<le> 90 then n + 32 else n)"


section \<open>Regular expressions\<close>

text \<open>
  The regular expressions of \<open>workflow.ts\<close> use literals, alternation, groups, the
  anchor \<open>$\<close> and quantified character classes (\<open>+\<close>, \<open>*?\<close>, \<open>+?\<close>, \<open>{2,}\<close>).
  The matcher is a backtracking one: it returns every way of matching in the order in which
  the backtracking of JavaScript tries them, so the head of the list is the match that
  \<open>String.prototype.match\<close> reports.
\<close>

datatype cls_atom =
    Range char char    \<comment> \<open>\<open>a-z\<close>\<close>
  | Chr char
  | Space              \<comment> \<open>\<open>\s\<close>\<close>
  | NonSpace           \<comment> \<open>\<open>\S\<close>\<close>

datatype quant =
    Greedy nat         \<comment> \<open>\<open>{n,}\<close>: \<open>*\<close> is \<open>Greedy 0\<close>, \<open>+\<close> is \<open>Greedy 1\<close>\<close>
  | Lazy nat           \<comment> \<open>\<open>{n,}?\<close>: \<open>*?\<close> is \<open>Lazy 0\<close>, \<open>+?\<close> is \<open>Lazy 1\<close>\<close>

datatype regex =
    Lit string                   \<comment> \<open>a run of literal characters\<close>
  | Rep quant "cls_atom list"    \<comment> \<open>a quantified character class\<close>
  | Cat "regex list"
  | Alt "regex list"
  | Cap regex                    \<comment> \<open>a capturing group\<close>
  | Eos                          \<comment> \<open>\<open>$\<close> without the flag \<open>m\<close>\<close>

fun atom_has :: "cls_atom \<Rightarrow> nat \<Rightarrow> bool" where
  \<comment> \<open>is the code unit \<open>n\<close> in this part of a class?\<close>
  "atom_has (Range a b) n = (of_char a \<le> n \<and> n \<le> of_char b)"
| "atom_has (Chr a) n = (of_char a = n)"
| "atom_has Space n = (n \<in> set [9, 10, 11, 12, 13, 32, 160])"
| "atom_has NonSpace n = (n \<notin> set [9, 10, 11, 12, 13, 32, 160])"

fun in_class :: "cls_atom list \<Rightarrow> nat \<Rightarrow> bool" where
  "in_class cs n = list_ex (\<lambda>a. atom_has a n) cs"

fun cls_has :: "bool \<Rightarrow> cls_atom list \<Rightarrow> nat \<Rightarrow> bool" where
  \<comment> \<open>with the flag \<open>i\<close> a character matches when its other case is in the class\<close>
  "cls_has ci cs n = (in_class cs n \<or> (ci \<and> (in_class cs (to_upper n) \<or> in_class cs (to_lower n))))"

definition cls_match :: "bool \<Rightarrow> cls_atom list \<Rightarrow> char \<Rightarrow> bool" where
  "cls_match ci cs c = cls_has ci cs (of_char c)"

fun lit_match :: "bool \<Rightarrow> string \<Rightarrow> string \<Rightarrow> bool" where
  "lit_match ci [] s = True"
| "lit_match ci (p # ps) [] = False"
| "lit_match ci (p # ps) (c # cs) =
     ((if ci then to_upper (of_char p) = to_upper (of_char c) else p = c) \<and> lit_match ci ps cs)"

fun rests :: "(char \<Rightarrow> bool) \<Rightarrow> string \<Rightarrow> string list" where
  \<comment> \<open>what is left of the input after 0, 1, 2, ... characters of a class\<close>
  "rests p [] = [[]]"
| "rests p (c # cs) = (c # cs) # (if p c then rests p cs else [])"

fun rep_rests :: "quant \<Rightarrow> string list \<Rightarrow> string list" where
  \<comment> \<open>the repetitions to try, in order: the longest first when greedy\<close>
  "rep_rests (Greedy m) rs = rev (drop m rs)"
| "rep_rests (Lazy m) rs = drop m rs"

type_synonym mstate = "string \<times> string list"
  \<comment> \<open>the input still to match, and the texts of the groups closed so far\<close>

fun rmatch :: "bool \<Rightarrow> regex \<Rightarrow> mstate \<Rightarrow> mstate list"
  and rmatch_cat :: "bool \<Rightarrow> regex list \<Rightarrow> mstate \<Rightarrow> mstate list"
  and rmatch_alt :: "bool \<Rightarrow> regex list \<Rightarrow> mstate \<Rightarrow> mstate list"
where
  "rmatch ci (Lit l) st =
     (if lit_match ci l (fst st) then [(drop (length l) (fst st), snd st)] else [])"
| "rmatch ci (Rep q cs) st =
     map (\<lambda>s'. (s', snd st)) (rep_rests q (rests (cls_match ci cs) (fst st)))"
| "rmatch ci (Cat rs) st = rmatch_cat ci rs st"
| "rmatch ci (Alt rs) st = rmatch_alt ci rs st"
| "rmatch ci (Cap r) st =
     map (\<lambda>st'. (fst st', snd st' @ [take (length (fst st) - length (fst st')) (fst st)]))
         (rmatch ci r st)"
| "rmatch ci Eos st = (if fst st = [] then [st] else [])"
| "rmatch_cat ci [] st = [st]"
| "rmatch_cat ci (r # rs) st = concat (map (rmatch_cat ci rs) (rmatch ci r st))"
| "rmatch_alt ci [] st = []"
| "rmatch_alt ci (r # rs) st = rmatch ci r st @ rmatch_alt ci rs st"

fun search :: "bool \<Rightarrow> regex \<Rightarrow> string \<Rightarrow> (string \<times> string list) option" where
  \<comment> \<open>\<open>s.match(r)\<close> for a regex without the flag \<open>g\<close>: the leftmost match, as
      the matched text (index 0 of the result) and the groups (index 1 onwards)\<close>
  "search ci r [] =
     (case rmatch ci r ([], []) of
        [] \<Rightarrow> None
      | st # _ \<Rightarrow> Some ([], snd st))"
| "search ci r (c # cs) =
     (case rmatch ci r (c # cs, []) of
        [] \<Rightarrow> search ci r cs
      | st # _ \<Rightarrow> Some (take (length (c # cs) - length (fst st)) (c # cs), snd st))"

definition emailRegex :: regex where
  \<comment> \<open>\<open>/[A-Za-z0-9._%+-]+@[A-Za-z0-9.-]+\.[A-Za-z]{2,}/i\<close>\<close>
  "emailRegex = Cat
     [Rep (Greedy 1) [Range CHR ''A'' CHR ''Z'', Range CHR ''a'' CHR ''z'', Range CHR ''0'' CHR ''9'',
                      Chr CHR ''.'', Chr CHR ''_'', Chr CHR ''%'', Chr CHR ''+'', Chr CHR ''-''],
      Lit ''@'',
      Rep (Greedy 1) [Range CHR ''A'' CHR ''Z'', Range CHR ''a'' CHR ''z'', Range CHR ''0'' CHR ''9'',
                      Chr CHR ''.'', Chr CHR ''-''],
      Lit ''.'',
      Rep (Greedy 2) [Range CHR ''A'' CHR ''Z'', Range CHR ''a'' CHR ''z'']]"

definition nameRegex :: regex where
  \<comment> \<open>\<open>/(?:my name is|i'm|i am|name[:\s]+)([a-z\s]+)/i\<close>\<close>
  "nameRegex = Cat
     [Alt [Lit ''my name is'', Lit ''i'm'', Lit ''i am'',
           Cat [Lit ''name'', Rep (Greedy 1) [Chr CHR '':'', Space]]],
      Cap (Rep (Greedy 1) [Range CHR ''a'' CHR ''z'', Space])]"

definition companyRegex :: regex where
  \<comment> \<open>\<open>/(?:from|at|work at|company|for)[:\s]+([a-z0-9\s&.,'-]+?)(?:\s+and|\s+my|\s*$)/i\<close>\<close>
  "companyRegex = Cat
     [Alt [Lit ''from'', Lit ''at'', Lit ''work at'', Lit ''company'', Lit ''for''],
      Rep (Greedy 1) [Chr CHR '':'', Space],
      Cap (Rep (Lazy 1) [Range CHR ''a'' CHR ''z'', Range CHR ''0'' CHR ''9'', Space,
                         Chr CHR ''&'', Chr CHR ''.'', Chr CHR '','', Chr CHR 0x27, Chr CHR ''-'']),
      Alt [Cat [Rep (Greedy 1) [Space], Lit ''and''],
           Cat [Rep (Greedy 1) [Space], Lit ''my''],
           Cat [Rep (Greedy 0) [Space], Eos]]]"

definition jsonRegex :: regex where
  \<comment> \<open>\<open>/\{[\s\S]*?"score"[\s\S]*?\}/\<close>\<close>
  \<open>jsonRegex = Cat
     [Lit ''{'', Rep (Lazy 0) [Space, NonSpace], Lit ''"score"'',
      Rep (Lazy 0) [Space, NonSpace], Lit ''}'']\<close>


section \<open>Numbers\<close>

text \<open>
  A JavaScript number is a double. The model keeps the finite ones as exact rationals
  (the rounding of IEEE 754 is not modelled) and has the three special values.
\<close>

datatype jsnum = NaN | NegInf | Num rat | PosInf

fun js_less_eq :: "jsnum \<Rightarrow> jsnum \<Rightarrow> bool" where
  \<comment> \<open>\<open>a <= b\<close>: false as soon as one side is \<open>NaN\<close>\<close>
  "js_less_eq NaN b = False"
| "js_less_eq a NaN = False"
| "js_less_eq NegInf b = True"
| "js_less_eq a PosInf = True"
| "js_less_eq (Num x) (Num y) = (x \<le> y)"
| "js_less_eq (Num x) NegInf = False"
| "js_less_eq PosInf b = False"

definition Math_max :: "jsnum \<Rightarrow> jsnum \<Rightarrow> jsnum" where
  "Math_max a b = (if a = NaN \<or> b = NaN then NaN else if js_less_eq a b then b else a)"

definition Math_min :: "jsnum \<Rightarrow> jsnum \<Rightarrow> jsnum" where
  "Math_min a b = (if a = NaN \<or> b = NaN then NaN else if js_less_eq a b then a else b)"

definition is_digit :: "nat \<Rightarrow> bool" where
  "is_digit n = (48 \<le> n \<and> n \<le> 57)"

definition digit_val :: "nat \<Rightarrow> nat" where
  \<comment> \<open>the value of a digit of any base up to 16\<close>
  "digit_val n = (if 48 \<le> n \<and> n \<le> 57 then n - 48
                  else if 97 \<le> n \<and> n \<le> 102 then n - 87
                  else if 65 \<le> n \<and> n \<le> 70 then n - 55 else 16)"

fun digits_val :: "nat \<Rightarrow> nat \<Rightarrow> nat list \<Rightarrow> nat" where
  "digits_val base acc [] = acc"
| "digits_val base acc (d # ds) = digits_val base (base * acc + digit_val d) ds"

definition split_sign :: "nat list \<Rightarrow> nat option \<times> nat list" where
  \<comment> \<open>an optional \<open>+\<close> or \<open>-\<close>\<close>
  "split_sign s = (case s of [] \<Rightarrow> (None, s)
                   | c # r \<Rightarrow> if c = 43 \<or> c = 45 then (Some c, r) else (None, s))"

definition split_frac :: "nat list \<Rightarrow> nat list option \<times> nat list" where
  \<comment> \<open>an optional \<open>.\<close> and the digits after it\<close>
  "split_frac s = (case s of [] \<Rightarrow> (None, s)
                   | c # r \<Rightarrow> if c = 46 then (Some (takeWhile is_digit r), dropWhile is_digit r)
                             else (None, s))"

definition split_exp :: "nat list \<Rightarrow> (nat option \<times> nat list) option \<times> nat list" where
  \<comment> \<open>an optional \<open>e\<close> or \<open>E\<close>, a sign and the digits after it\<close>
  "split_exp s = (case s of [] \<Rightarrow> (None, s)
                  | c # r \<Rightarrow> if c = 101 \<or> c = 69
                            then (Some (fst (split_sign r), takeWhile is_digit (snd (split_sign r))),
                                  dropWhile is_digit (snd (split_sign r)))
                            else (None, s))"

definition decimal_value ::
  "nat list \<Rightarrow> nat list option \<Rightarrow> (nat option \<times> nat list) option \<Rightarrow> rat" where
  "decimal_value ip fp ep =
     (let fd = (case fp of None \<Rightarrow> [] | Some ds \<Rightarrow> ds);
          m = of_nat (digits_val 10 0 (ip @ fd)) / 10 ^ length fd
      in case ep of
           None \<Rightarrow> m
         | Some (sg, ds) \<Rightarrow> if sg = Some 45 then m / 10 ^ digits_val 10 0 ds
                           else m * 10 ^ digits_val 10 0 ds)"

definition exp_ok :: "(nat option \<times> nat list) option \<Rightarrow> bool" where
  "exp_ok ep = (case ep of None \<Rightarrow> True | Some (sg, ds) \<Rightarrow> ds \<noteq> [])"

definition radix_literal :: "nat list \<Rightarrow> nat option" where
  \<comment> \<open>\<open>0x1f\<close>, \<open>0o17\<close>, \<open>0b11\<close>\<close>
  "radix_literal s =
     (case s of
        z # x # d # ds \<Rightarrow>
          (let base = (if x = 120 \<or> x = 88 then 16 else if x = 111 \<or> x = 79 then 8
                       else if x = 98 \<or> x = 66 then 2 else 0)
           in if z = 48 \<and> base \<noteq> 0 \<and> list_all (\<lambda>c. digit_val c < base) (d # ds)
              then Some (digits_val base 0 (d # ds)) else None)
      | _ \<Rightarrow> None)"

definition is_str_ws :: "nat \<Rightarrow> bool" where
  \<comment> \<open>white space and line terminators, as code units\<close>
  "is_str_ws n = (n \<in> set [9, 10, 11, 12, 13, 32, 160, 5760, 8232, 8233, 8239, 8287, 12288, 65279]
                  \<or> (8192 \<le> n \<and> n \<le> 8202))"

definition StringToNumber :: "nat list \<Rightarrow> jsnum" where
  \<comment> \<open>the conversion of a string to a number, as \<open>Math.min\<close> applies it\<close>
  "StringToNumber str =
     (let s = rev (dropWhile is_str_ws (rev (dropWhile is_str_ws str)));
          s1 = snd (split_sign s);
          ip = takeWhile is_digit s1;
          fp = fst (split_frac (dropWhile is_digit s1));
          s3 = snd (split_frac (dropWhile is_digit s1));
          ep = fst (split_exp s3)
      in if s = [] then Num 0
         else if s = map of_char ''Infinity'' \<or> s = map of_char ''+Infinity'' then PosInf
         else if s = map of_char ''-Infinity'' then NegInf
         else case radix_literal s of
                Some n \<Rightarrow> Num (of_nat n)
              | None \<Rightarrow>
                  if (ip = [] \<and> (fp = None \<or> fp = Some [])) \<or> \<not> exp_ok ep \<or> snd (split_exp s3) \<noteq> []
                  then NaN
                  else if fst (split_sign s) = Some 45 then Num (- decimal_value ip fp ep)
                  else Num (decimal_value ip fp ep))"


section \<open>JSON.parse\<close>

datatype json =
    JNull | JBool bool | JNum rat | JStr "nat list" | JArr "json list"
  | JObj "(nat list \<times> json) list"    \<comment> \<open>the members in the order of the text\<close>

definition json_number :: "nat list \<Rightarrow> rat option" where
  \<comment> \<open>\<open>-? (0 | [1-9][0-9]*) (. [0-9]+)? ([eE] [+-]? [0-9]+)?\<close>\<close>
  "json_number w =
     (let s1 = (case w of [] \<Rightarrow> w | c # r \<Rightarrow> if c = 45 then r else w);
          ip = takeWhile is_digit s1;
          fp = fst (split_frac (dropWhile is_digit s1));
          s3 = snd (split_frac (dropWhile is_digit s1));
          ep = fst (split_exp s3)
      in if ip = [] \<or> (case ip of z # _ # _ \<Rightarrow> z = 48 | _ \<Rightarrow> False) \<or> fp = Some []
            \<or> \<not> exp_ok ep \<or> snd (split_exp s3) \<noteq> []
         then None
         else if w \<noteq> s1 then Some (- decimal_value ip fp ep)
         else Some (decimal_value ip fp ep))"

definition word_value :: "nat list \<Rightarrow> json option" where
  "word_value w =
     (if w = map of_char ''true'' then Some (JBool True)
      else if w = map of_char ''false'' then Some (JBool False)
      else if w = map of_char ''null'' then Some JNull
      else map_option JNum (json_number w))"

datatype tok =
    TLBrace | TRBrace | TLBrack | TRBrack | TColon | TComma
  | TStr "nat list"     \<comment> \<open>a string, unescaped\<close>
  | TWord "nat list"    \<comment> \<open>a number or a literal name, as written\<close>

datatype lex_mode =
    Idle
  | InWord "nat list"               \<comment> \<open>the characters so far, last first\<close>
  | InStr "nat list"
  | InEsc "nat list"                \<comment> \<open>after a backslash\<close>
  | InUni "nat list" "nat list"     \<comment> \<open>after \<open>\u\<close>, with the hex digits so far\<close>

definition is_word_cu :: "nat \<Rightarrow> bool" where
  \<comment> \<open>the characters of numbers and literal names\<close>
  "is_word_cu n = (is_digit n \<or> (97 \<le> n \<and> n \<le> 122) \<or> (65 \<le> n \<and> n \<le> 90)
                   \<or> n = 43 \<or> n = 45 \<or> n = 46)"

definition idle_step :: "tok list \<Rightarrow> nat \<Rightarrow> (lex_mode \<times> tok list) option" where
  "idle_step acc n =
     (if n = 32 \<or> n = 9 \<or> n = 10 \<or> n = 13 then Some (Idle, acc)
      else if n = of_char CHR ''{'' then Some (Idle, TLBrace # acc)
      else if n = of_char CHR ''}'' then Some (Idle, TRBrace # acc)
      else if n = of_char CHR ''['' then Some (Idle, TLBrack # acc)
      else if n = of_char CHR '']'' then Some (Idle, TRBrack # acc)
      else if n = of_char CHR '':'' then Some (Idle, TColon # acc)
      else if n = of_char CHR '','' then Some (Idle, TComma # acc)
      else if n = 34 then Some (InStr [], acc)
      else if is_word_cu n then Some (InWord [n], acc)
      else None)"

definition unescape :: "nat \<Rightarrow> nat option" where
  \<comment> \<open>the character after a backslash, other than \<open>u\<close>\<close>
  "unescape n =
     (if n = 34 \<or> n = 92 \<or> n = 47 then Some n
      else if n = of_char CHR ''b'' then Some 8
      else if n = of_char CHR ''f'' then Some 12
      else if n = of_char CHR ''n'' then Some 10
      else if n = of_char CHR ''r'' then Some 13
      else if n = of_char CHR ''t'' then Some 9
      else None)"

fun lex_step :: "lex_mode \<Rightarrow> tok list \<Rightarrow> nat \<Rightarrow> (lex_mode \<times> tok list) option" where
  "lex_step Idle acc n = idle_step acc n"
| "lex_step (InWord w) acc n =
     (if is_word_cu n then Some (InWord (n # w), acc) else idle_step (TWord (rev w) # acc) n)"
| "lex_step (InStr s) acc n =
     (if n = 34 then Some (Idle, TStr (rev s) # acc)
      else if n = 92 then Some (InEsc s, acc)
      else if n < 32 then None
      else Some (InStr (n # s), acc))"
| "lex_step (InEsc s) acc n =
     (if n = of_char CHR ''u'' then Some (InUni s [], acc)
      else case unescape n of None \<Rightarrow> None | Some c \<Rightarrow> Some (InStr (c # s), acc))"
| "lex_step (InUni s ds) acc n =
     (if digit_val n < 16
      then (if length ds = 3 then Some (InStr (digits_val 16 0 (ds @ [n]) # s), acc)
            else Some (InUni s (ds @ [n]), acc))
      else None)"

fun lex :: "lex_mode \<Rightarrow> tok list \<Rightarrow> nat list \<Rightarrow> tok list option" where
  "lex Idle acc [] = Some (rev acc)"
| "lex (InWord w) acc [] = Some (rev (TWord (rev w) # acc))"
| "lex m acc [] = None"
| "lex m acc (n # ns) =
     (case lex_step m acc n of None \<Rightarrow> None | Some (m', acc') \<Rightarrow> lex m' acc' ns)"

datatype frame =
    ArrF "json list"                                   \<comment> \<open>the elements so far, last first\<close>
  | ObjF "(nat list \<times> json) list" "nat list option"   \<comment> \<open>the members so far, and a key waiting for its value\<close>

datatype pmode =
    PValue | PValueOrEnd | PKeyOrEnd | PKey | PColon | PAfter | PDone json

fun push_value :: "json \<Rightarrow> frame list \<Rightarrow> (pmode \<times> frame list) option" where
  "push_value v [] = Some (PDone v, [])"
| "push_value v (ArrF es # st) = Some (PAfter, ArrF (v # es) # st)"
| "push_value v (ObjF ms (Some k) # st) = Some (PAfter, ObjF ((k, v) # ms) None # st)"
| "push_value v (ObjF ms None # st) = None"

fun close_arr :: "frame list \<Rightarrow> (pmode \<times> frame list) option" where
  "close_arr (ArrF es # st) = push_value (JArr (rev es)) st"
| "close_arr st = None"

fun close_obj :: "frame list \<Rightarrow> (pmode \<times> frame list) option" where
  "close_obj (ObjF ms None # st) = push_value (JObj (rev ms)) st"
| "close_obj st = None"

fun open_key :: "nat list \<Rightarrow> frame list \<Rightarrow> (pmode \<times> frame list) option" where
  "open_key k (ObjF ms None # st) = Some (PColon, ObjF ms (Some k) # st)"
| "open_key k st = None"

fun start_value :: "frame list \<Rightarrow> tok \<Rightarrow> (pmode \<times> frame list) option" where
  "start_value st TLBrace = Some (PKeyOrEnd, ObjF [] None # st)"
| "start_value st TLBrack = Some (PValueOrEnd, ArrF [] # st)"
| "start_value st (TStr s) = push_value (JStr s) st"
| "start_value st (TWord w) = (case word_value w of None \<Rightarrow> None | Some v \<Rightarrow> push_value v st)"
| "start_value st t = None"

fun pstep :: "pmode \<Rightarrow> frame list \<Rightarrow> tok \<Rightarrow> (pmode \<times> frame list) option" where
  "pstep PValue st t = start_value st t"
| "pstep PValueOrEnd st t = (if t = TRBrack then close_arr st else start_value st t)"
| "pstep PKeyOrEnd st t =
     (case t of TStr k \<Rightarrow> open_key k st | TRBrace \<Rightarrow> close_obj st | _ \<Rightarrow> None)"
| "pstep PKey st t = (case t of TStr k \<Rightarrow> open_key k st | _ \<Rightarrow> None)"
| "pstep PColon st t = (if t = TColon then Some (PValue, st) else None)"
| "pstep PAfter st t =
     (case t of
        TComma \<Rightarrow> (case st of ArrF es # _ \<Rightarrow> Some (PValue, st)
                            | ObjF ms k # _ \<Rightarrow> Some (PKey, st)
                            | [] \<Rightarrow> None)
      | TRBrack \<Rightarrow> close_arr st
      | TRBrace \<Rightarrow> close_obj st
      | _ \<Rightarrow> None)"
| "pstep (PDone v) st t = None"

fun parse_toks :: "pmode \<Rightarrow> frame list \<Rightarrow> tok list \<Rightarrow> json option" where
  "parse_toks (PDone v) st [] = Some v"
| "parse_toks m st [] = None"
| "parse_toks m st (t # ts) =
     (case pstep m st t of None \<Rightarrow> None | Some (m', st') \<Rightarrow> parse_toks m' st' ts)"

definition JSON_parse :: "string \<Rightarrow> json option" where
  \<comment> \<open>\<open>None\<close> is the SyntaxError that \<open>JSON.parse\<close> throws\<close>
  "JSON_parse text =
     (case lex Idle [] (map of_char text) of None \<Rightarrow> None | Some ts \<Rightarrow> parse_toks PValue [] ts)"

fun get_prop :: "json \<Rightarrow> string \<Rightarrow> json option" where
  \<comment> \<open>\<open>v.key\<close> on a parsed value other than \<open>null\<close>: \<open>None\<close> is \<open>undefined\<close>;
      of two members with one key the later one is kept\<close>
  "get_prop (JObj ms) key = map_of (rev ms) (map of_char key)"
| "get_prop v key = None"

fun ToNumber :: "json \<Rightarrow> jsnum" where
  \<comment> \<open>an array is converted through its text: the elements joined by commas\<close>
  "ToNumber JNull = Num 0"
| "ToNumber (JBool b) = Num (if b then 1 else 0)"
| "ToNumber (JNum r) = Num r"
| "ToNumber (JStr s) = StringToNumber s"
| "ToNumber (JObj ms) = NaN"
| "ToNumber (JArr []) = Num 0"
| "ToNumber (JArr [x]) =
     (case x of JNull \<Rightarrow> Num 0 | JBool b \<Rightarrow> NaN | JObj ms \<Rightarrow> NaN | _ \<Rightarrow> ToNumber x)"
| "ToNumber (JArr (x # y # zs)) = NaN"


section \<open>Conversation state\<close>

record message =
  mtype :: string      \<comment> \<open>what \<open>_getType()\<close> returns: \<open>human\<close>, \<open>ai\<close>, ...\<close>
  content :: string

definition AIMessage :: "string \<Rightarrow> message" where
  "AIMessage text = \<lparr>mtype = ''ai'', content = text\<rparr>"

definition HumanMessage :: "string \<Rightarrow> message" where
  "HumanMessage text = \<lparr>mtype = ''human'', content = text\<rparr>"

record document =
  pageContent :: string
  title :: "string option"     \<comment> \<open>\<open>metadata.title\<close>\<close>
  url :: "string option"       \<comment> \<open>\<open>metadata.url\<close>\<close>
  source :: "string option"    \<comment> \<open>\<open>metadata.source\<close>\<close>

record contact_info =
  name :: "string option"
  email :: "string option"
  company :: "string option"
  collected :: bool

record graph_state =
  messages :: "message list"
  retrievedDocs :: "document list"
  answer :: string
  errors :: "string list"
  interestScore :: jsnum
  contactInfo :: contact_info
  collectingContact :: bool
  appendMessage :: string

definition default_state :: graph_state where
  "default_state =
     \<lparr>messages = [], retrievedDocs = [], answer = [], errors = [], interestScore = Num 0,
      contactInfo = \<lparr>name = None, email = None, company = None, collected = False\<rparr>,
      collectingContact = False, appendMessage = []\<rparr>"

text \<open>What a node returns: a value for each channel it writes.\<close>

record update =
  u_messages :: "message list option"
  u_retrievedDocs :: "document list option"
  u_answer :: "string option"
  u_errors :: "string list option"
  u_interestScore :: "jsnum option"
  u_contactInfo :: "contact_info option"
  u_collectingContact :: "bool option"
  u_appendMessage :: "string option"

definition empty_update :: update where
  "empty_update =
     \<lparr>u_messages = None, u_retrievedDocs = None, u_answer = None, u_errors = None,
      u_interestScore = None, u_contactInfo = None, u_collectingContact = None,
      u_appendMessage = None\<rparr>"

definition concat_reducer :: "'a list \<Rightarrow> 'a list \<Rightarrow> 'a list" where
  \<comment> \<open>\<open>(current, update) => current.concat(update)\<close>\<close>
  "concat_reducer current upd = current @ upd"

definition replace_reducer :: "'a \<Rightarrow> 'a \<Rightarrow> 'a" where
  \<comment> \<open>\<open>(_, update) => update\<close>\<close>
  "replace_reducer current upd = upd"

definition nullish :: "'a option \<Rightarrow> 'a \<Rightarrow> 'a" where
  \<comment> \<open>\<open>a ?? b\<close>\<close>
  "nullish a b = (case a of None \<Rightarrow> b | Some v \<Rightarrow> v)"

definition interestScore_reducer :: "jsnum option \<Rightarrow> jsnum option \<Rightarrow> jsnum" where
  \<comment> \<open>\<open>(current, update) => Math.max(current ?? 0, update ?? current ?? 0)\<close>\<close>
  "interestScore_reducer current upd =
     Math_max (nullish current (Num 0)) (nullish upd (nullish current (Num 0)))"

definition channel :: "('a \<Rightarrow> 'b \<Rightarrow> 'a) \<Rightarrow> 'a \<Rightarrow> 'b option \<Rightarrow> 'a" where
  \<comment> \<open>a channel keeps its value when the node wrote nothing to it\<close>
  "channel reducer current upd = (case upd of None \<Rightarrow> current | Some v \<Rightarrow> reducer current v)"

definition apply_update :: "graph_state \<Rightarrow> update \<Rightarrow> graph_state" where
  "apply_update s u =
     \<lparr>messages = channel concat_reducer (messages s) (u_messages u),
      retrievedDocs = channel replace_reducer (retrievedDocs s) (u_retrievedDocs u),
      answer = channel replace_reducer (answer s) (u_answer u),
      errors = channel concat_reducer (errors s) (u_errors u),
      interestScore = channel (\<lambda>c v. interestScore_reducer (Some c) (Some v))
                        (interestScore s) (u_interestScore u),
      contactInfo = channel replace_reducer (contactInfo s) (u_contactInfo u),
      collectingContact = channel replace_reducer (collectingContact s) (u_collectingContact u),
      appendMessage = channel replace_reducer (appendMessage s) (u_appendMessage u)\<rparr>"


section \<open>The world outside\<close>

record slackMessage =
  \<comment> \<open>the values put into the four fields and the context line of the payload\<close>
  name_field :: string
  email_field :: "string option"
  company_field :: string
  score_field :: jsnum
  captured_at :: string

datatype event =
    RetrieverInvoke string                      \<comment> \<open>\<open>retriever.invoke(query)\<close>\<close>
  | LlmInvoke string                            \<comment> \<open>\<open>llm.invoke(evaluationPrompt)\<close>\<close>
  | ChainInvoke string "message list" string    \<comment> \<open>\<open>chain.invoke({context, chat_history, query})\<close>\<close>
  | Fetch string slackMessage                   \<comment> \<open>the request sent to the webhook\<close>

text \<open>
  The collaborators of a run. A call that throws is \<open>Inl\<close> of the error's message.
\<close>

record env =
  retriever_invoke :: "string \<Rightarrow> string + document list"
  llm_invoke :: "string \<Rightarrow> string + string"
  chain_invoke :: "string \<Rightarrow> message list \<Rightarrow> string \<Rightarrow> string + string"
  SLACK_WEBHOOK_URL :: "string option"
  fetch :: "string \<Rightarrow> slackMessage \<Rightarrow> string + bool"    \<comment> \<open>\<open>Inr\<close> of \<open>response.ok\<close>\<close>
  now :: string                                          \<comment> \<open>\<open>new Date().toLocaleString()\<close>\<close>


section \<open>The nodes\<close>

definition truthy :: "string option \<Rightarrow> bool" where
  \<comment> \<open>neither \<open>undefined\<close> nor the empty string\<close>
  "truthy v = (case v of None \<Rightarrow> False | Some s \<Rightarrow> s \<noteq> [])"

definition or_else :: "string option \<Rightarrow> string \<Rightarrow> string" where
  \<comment> \<open>\<open>a || b\<close>\<close>
  "or_else v d = (case v of None \<Rightarrow> d | Some s \<Rightarrow> if s = [] then d else s)"

definition last_content :: "message list \<Rightarrow> string + string" where
  \<comment> \<open>\<open>state.messages[state.messages.length - 1].content.toString()\<close>: on an empty list
      the element is \<open>undefined\<close> and reading its \<open>content\<close> throws a TypeError\<close>
  "last_content ms =
     (if ms = [] then Inl ''Cannot read properties of undefined (reading 'content')''
      else Inr (content (last ms)))"

definition retrieval_failed :: "string \<Rightarrow> update" where
  "retrieval_failed msg =
     empty_update\<lparr>u_retrievedDocs := Some [], u_errors := Some [''Retrieval failed: '' @ msg]\<rparr>"

definition retrieverNode :: "env \<Rightarrow> graph_state \<Rightarrow> update \<times> event list" where
  "retrieverNode e state =
     (case last_content (messages state) of
        Inl msg \<Rightarrow> (retrieval_failed msg, [])
      | Inr query \<Rightarrow>
          (case retriever_invoke e query of
             Inl msg \<Rightarrow> (retrieval_failed msg, [RetrieverInvoke query])
           | Inr docs \<Rightarrow>
               if length docs = 0
               then (empty_update\<lparr>u_retrievedDocs := Some [],
                                   u_errors := Some [''No relevant documents found'']\<rparr>,
                     [RetrieverInvoke query])
               else (empty_update\<lparr>u_retrievedDocs := Some docs\<rparr>, [RetrieverInvoke query])))"

definition evaluationPrompt :: "string \<Rightarrow> string" where
  \<open>evaluationPrompt conversationText =
       ''You are a lead qualification expert for Botpress, a chatbot platform.\<newline>'' @
       ''\<newline>'' @
       ''Analyze this conversation and score the user's interest level from 0-10:\<newline>'' @
       ''\<newline>'' @
       ''Conversation:\<newline>'' @
       conversationText @
       ''\<newline>'' @
       ''\<newline>'' @
       ''Scoring criteria:\<newline>'' @
       ''- 0-3: Just browsing, casual questions, no clear use case\<newline>'' @
       ''- 4-6: Showing some interest, asking specific questions, has a potential use case\<newline>'' @
       ''- 7-8: Strong interest, asking detailed implementation questions, discussing business needs\<newline>'' @
       ''- 9-10: Very high interest, saying they want to sign up, asking about pricing/enterprise features, ready to buy\<newline>'' @
       ''\<newline>'' @
       ''Key signals for high scores (9-10):\<newline>'' @
       ''- User says "I want to sign up" or "definitely like to sign up"\<newline>'' @
       ''- User asks "What would the pricing be?" or "How much does it cost?"\<newline>'' @
       ''- User discusses their business needs and company scale\<newline>'' @
       ''- User asks about implementation timelines\<newline>'' @
       ''\<newline>'' @
       ''Respond with ONLY a JSON object in this exact format:\<newline>'' @
       ''{"score": <number 0-10>, "reason": "<brief explanation>"}''\<close>

definition score_update :: "jsnum \<Rightarrow> update" where
  "score_update n = empty_update\<lparr>u_interestScore := Some n\<rparr>"

definition result_score :: "json \<Rightarrow> string + jsnum" where
  \<comment> \<open>\<open>Math.max(0, Math.min(10, result.score))\<close>; reading a property of \<open>null\<close> throws\<close>
  "result_score result =
     (if result = JNull then Inl ''Cannot read properties of null (reading 'score')''
      else Inr (Math_max (Num 0) (Math_min (Num 10)
                  (case get_prop result ''score'' of None \<Rightarrow> NaN | Some v \<Rightarrow> ToNumber v))))"

definition interestEvaluatorNode :: "env \<Rightarrow> graph_state \<Rightarrow> update \<times> event list" where
  "interestEvaluatorNode e state =
     (if collectingContact state then (empty_update, [])
      else if length (messages state) < 3 then (score_update (Num 0), [])
      else
        (let conversationText =
               join ''\<newline>'' (map (\<lambda>msg. mtype msg @ '': '' @ content msg)
                                    (drop (length (messages state) - 6) (messages state)));
             prompt = evaluationPrompt conversationText
         in case llm_invoke e prompt of
              Inl msg \<Rightarrow> (score_update (Num 0), [LlmInvoke prompt])
            | Inr text \<Rightarrow>
                (case search False jsonRegex text of
                   None \<Rightarrow> (score_update (Num 0), [LlmInvoke prompt])
                 | Some jsonMatch \<Rightarrow>
                     (case JSON_parse (fst jsonMatch) of
                        None \<Rightarrow> (score_update (Num 0), [LlmInvoke prompt])
                      | Some result \<Rightarrow>
                          (case result_score result of
                             Inl msg \<Rightarrow> (score_update (Num 0), [LlmInvoke prompt])
                           | Inr score \<Rightarrow> (score_update score, [LlmInvoke prompt]))))))"

definition lastUserMessage :: "message list \<Rightarrow> string" where
  \<comment> \<open>\<open>messages.slice().reverse().find(msg => msg._getType() === "human")?.content.toString() || ""\<close>\<close>
  "lastUserMessage ms =
     (case find (\<lambda>msg. mtype msg = ''human'') (rev ms) of None \<Rightarrow> [] | Some m \<Rightarrow> content m)"

definition group1 :: "string \<times> string list \<Rightarrow> string" where
  \<comment> \<open>index 1 of a match; the group of \<open>nameRegex\<close> and of \<open>companyRegex\<close> takes part
      in every match\<close>
  "group1 m = (case snd m of [] \<Rightarrow> [] | g # _ \<Rightarrow> g)"

definition thankYouMessage :: "string option \<Rightarrow> string" where
  "thankYouMessage nm =
     ''\<newline>\<newline>---\<newline>\<newline>Thank you'' @ (if truthy nm then '' '' @ or_else nm [] else []) @
     ''! I've noted your contact information. Our team will reach out to you shortly to discuss how Botpress can help with your chatbot needs.''"

definition requestMessage :: "message list \<Rightarrow> string" where
  "requestMessage ms =
     ''\<newline>\<newline>---\<newline>\<newline>I can see you're interested in Botpress! I'd love to connect you with our team to discuss your specific needs. Could you share your email address'' @
     (if list_ex (\<lambda>m. str_includes (content m) ''company'' \<or> str_includes (content m) ''business'') ms
      then '' and company name'' else []) @ ''?''"

definition contactCollectorNode :: "graph_state \<Rightarrow> update \<times> event list" where
  \<comment> \<open>nothing in the \<open>try\<close> block throws on a state of this type, so the \<open>catch\<close>
      block (\<open>return { collectingContact: false }\<close>) has no branch here\<close>
  "contactCollectorNode state =
     (case search True emailRegex (lastUserMessage (messages state)) of
        Some emailMatch \<Rightarrow>
          (let nameMatch = search True nameRegex (lastUserMessage (messages state));
               companyMatch = search True companyRegex (lastUserMessage (messages state));
               info = \<lparr>name = map_option (\<lambda>m. trim (group1 m)) nameMatch,
                       email = Some (fst emailMatch),
                       company = map_option (\<lambda>m. trim (group1 m)) companyMatch,
                       collected = True\<rparr>
           in (empty_update\<lparr>u_contactInfo := Some info,
                             u_collectingContact := Some False,
                             u_appendMessage := Some (thankYouMessage (name info))\<rparr>, []))
      | None \<Rightarrow>
          if \<not> collectingContact state
          then (empty_update\<lparr>u_collectingContact := Some True,
                              u_appendMessage := Some (requestMessage (messages state))\<rparr>, [])
          else (empty_update, []))"

definition slackNotifierNode :: "env \<Rightarrow> graph_state \<Rightarrow> update \<times> event list" where
  "slackNotifierNode e state =
     (if \<not> collected (contactInfo state) then (empty_update, [])
      else if \<not> truthy (SLACK_WEBHOOK_URL e) then (empty_update, [])
      else
        (let slackWebhookUrl = or_else (SLACK_WEBHOOK_URL e) [];
             payload = \<lparr>name_field = or_else (name (contactInfo state)) ''Not provided'',
                        email_field = email (contactInfo state),
                        company_field = or_else (company (contactInfo state)) ''Not provided'',
                        score_field = interestScore state,
                        captured_at = now e\<rparr>
         in case fetch e slackWebhookUrl payload of
              Inl msg \<Rightarrow> (empty_update, [Fetch slackWebhookUrl payload])
            | Inr ok \<Rightarrow> (empty_update, [Fetch slackWebhookUrl payload])))"

definition format_doc :: "document \<Rightarrow> string" where
  "format_doc doc =
     ''['' @ or_else (title doc) ''Document'' @ '']\<newline>Source: '' @
     or_else (url doc) (or_else (source doc) ''Unknown source'') @ ''\<newline>\<newline>'' @ pageContent doc"

definition prompt_context :: "document list \<Rightarrow> string" where
  \<comment> \<open>the documents as one text, \<open>context || "No relevant documentation ..."\<close>\<close>
  "prompt_context docs =
     (let context = join ''\<newline>\<newline>---\<newline>\<newline>'' (map format_doc docs)
      in if context = [] then ''No relevant documentation found for this query.'' else context)"

definition errorAnswer :: string where
  "errorAnswer = ''I apologize, but I encountered an error while processing your request. Please try again.''"

definition generation_failed :: "string \<Rightarrow> update" where
  "generation_failed msg =
     empty_update\<lparr>u_answer := Some errorAnswer,
                  u_messages := Some [AIMessage errorAnswer],
                  u_errors := Some [''Generation failed: '' @ msg]\<rparr>"

definition generatorNode :: "env \<Rightarrow> graph_state \<Rightarrow> update \<times> event list" where
  \<comment> \<open>the chain is the fixed system prompt, the history, the query, the model and the
      parser of its output; \<open>chain_invoke\<close> gets what fills the prompt\<close>
  "generatorNode e state =
     (case last_content (messages state) of
        Inl msg \<Rightarrow> (generation_failed msg, [])
      | Inr query \<Rightarrow>
          (let ctx = prompt_context (retrievedDocs state);
               chat_history = butlast (messages state)
           in case chain_invoke e ctx chat_history query of
                Inl msg \<Rightarrow> (generation_failed msg, [ChainInvoke ctx chat_history query])
              | Inr ans \<Rightarrow>
                  (let finalAnswer = (if appendMessage state \<noteq> []
                                      then ans @ ''\<newline>\<newline>'' @ appendMessage state else ans)
                   in (empty_update\<lparr>u_answer := Some finalAnswer,
                                     u_messages := Some [AIMessage finalAnswer],
                                     u_appendMessage := Some []\<rparr>,
                       [ChainInvoke ctx chat_history query]))))"


section \<open>Routing and the graph\<close>

definition shouldCollectContact :: "graph_state \<Rightarrow> string" where
  "shouldCollectContact state =
     (if collectingContact state \<or> collected (contactInfo state) then ''contact_collector''
      else if js_less_eq (Num 7) (interestScore state) then ''contact_collector''
      else ''generator'')"

definition afterContactCollection :: "graph_state \<Rightarrow> string" where
  "afterContactCollection state =
     (if collected (contactInfo state) then ''slack_notifier'' else ''__end__'')"

definition node_fn :: "env \<Rightarrow> string \<Rightarrow> (graph_state \<Rightarrow> update \<times> event list) option" where
  \<comment> \<open>\<open>addNode\<close>\<close>
  "node_fn e n =
     (if n = ''retriever'' then Some (retrieverNode e)
      else if n = ''generator'' then Some (generatorNode e)
      else if n = ''interest_evaluator'' then Some (interestEvaluatorNode e)
      else if n = ''contact_collector'' then Some contactCollectorNode
      else if n = ''slack_notifier'' then Some (slackNotifierNode e)
      else None)"

definition next_node :: "string \<Rightarrow> graph_state \<Rightarrow> string option" where
  \<comment> \<open>\<open>addEdge\<close> and \<open>addConditionalEdges\<close>\<close>
  "next_node n state =
     (if n = ''__start__'' then Some ''retriever''
      else if n = ''retriever'' then Some ''interest_evaluator''
      else if n = ''interest_evaluator''
        then map_of [(''contact_collector'', ''contact_collector''), (''generator'', ''generator'')]
               (shouldCollectContact state)
      else if n = ''contact_collector'' then Some ''generator''
      else if n = ''generator''
        then map_of [(''slack_notifier'', ''slack_notifier''), (''__end__'', ''__end__'')]
               (afterContactCollection state)
      else if n = ''slack_notifier'' then Some ''__end__''
      else None)"

record run_result =
  final :: graph_state
  visited :: "string list"     \<comment> \<open>the nodes run, in order\<close>
  events :: "event list"       \<comment> \<open>the calls made to the world outside, in order\<close>

fun exec :: "env \<Rightarrow> nat \<Rightarrow> string \<Rightarrow> run_result \<Rightarrow> run_result option" where
  \<comment> \<open>runs the node \<open>n\<close> and its successors, at most \<open>k\<close> of them; \<open>None\<close> when the
      graph has not reached \<open>__end__\<close> by then or names a node it does not have\<close>
  "exec e 0 n r = (if n = ''__end__'' then Some r else None)"
| "exec e (Suc k) n r =
     (if n = ''__end__'' then Some r
      else case node_fn e n of
             None \<Rightarrow> None
           | Some f \<Rightarrow>
               (case next_node n (apply_update (final r) (fst (f (final r)))) of
                  None \<Rightarrow> None
                | Some n' \<Rightarrow>
                    exec e k n' \<lparr>final = apply_update (final r) (fst (f (final r))),
                                 visited = visited r @ [n],
                                 events = events r @ snd (f (final r))\<rparr>))"

definition run :: "env \<Rightarrow> graph_state \<Rightarrow> run_result option" where
  \<comment> \<open>one run of the graph on the state of the thread\<close>
  "run e s =
     (case next_node ''__start__'' s of
        None \<Rightarrow> None
      | Some n \<Rightarrow> exec e 5 n \<lparr>final = s, visited = [], events = []\<rparr>)"

definition with_input :: "graph_state \<Rightarrow> message list \<Rightarrow> graph_state" where
  \<comment> \<open>the input of a run goes through the reducer of \<open>messages\<close>\<close>
  "with_input s input = s\<lparr>messages := concat_reducer (messages s) input\<rparr>"

definition invoke :: "env \<Rightarrow> graph_state \<Rightarrow> message list \<Rightarrow> run_result option" where
  \<comment> \<open>\<open>app.invoke({messages: input})\<close> on the state of a thread\<close>
  "invoke e s input = run e (with_input s input)"

text \<open>The state of a run after each of its stages.\<close>

definition after_retriever :: "env \<Rightarrow> graph_state \<Rightarrow> graph_state" where
  "after_retriever e s = apply_update s (fst (retrieverNode e s))"

definition after_evaluator :: "env \<Rightarrow> graph_state \<Rightarrow> graph_state" where
  "after_evaluator e s =
     apply_update (after_retriever e s) (fst (interestEvaluatorNode e (after_retriever e s)))"

definition collects :: "env \<Rightarrow> graph_state \<Rightarrow> bool" where
  \<comment> \<open>does the run go through the contact collector?\<close>
  "collects e s = (shouldCollectContact (after_evaluator e s) = ''contact_collector'')"

definition after_collector :: "env \<Rightarrow> graph_state \<Rightarrow> graph_state" where
  "after_collector e s =
     (if collects e s
      then apply_update (after_evaluator e s) (fst (contactCollectorNode (after_evaluator e s)))
      else after_evaluator e s)"

definition after_generator :: "env \<Rightarrow> graph_state \<Rightarrow> graph_state" where
  "after_generator e s =
     apply_update (after_collector e s) (fst (generatorNode e (after_collector e s)))"

definition notifies :: "env \<Rightarrow> graph_state \<Rightarrow> bool" where
  \<comment> \<open>does the run go through the notifier?\<close>
  "notifies e s = (afterContactCollection (after_generator e s) = ''slack_notifier'')"

definition after_run :: "env \<Rightarrow> graph_state \<Rightarrow> run_result" where
  "after_run e s =
     \<lparr>final = (if notifies e s
                then apply_update (after_generator e s) (fst (slackNotifierNode e (after_generator e s)))
                else after_generator e s),
      visited = [''retriever'', ''interest_evaluator'']
                @ (if collects e s then [''contact_collector''] else [])
                @ [''generator'']
                @ (if notifies e s then [''slack_notifier''] else []),
      events = snd (retrieverNode e s)
               @ snd (interestEvaluatorNode e (after_retriever e s))
               @ (if collects e s then snd (contactCollectorNode (after_evaluator e s)) else [])
               @ snd (generatorNode e (after_collector e s))
               @ (if notifies e s then snd (slackNotifierNode e (after_generator e s)) else [])\<rparr>"

fun is_fetch :: "event \<Rightarrow> bool" where
  "is_fetch (Fetch u p) = True"
| "is_fetch ev = False"

inductive reachable :: "graph_state \<Rightarrow> bool" where
  \<comment> \<open>the states a thread can be in between two runs; a run starts from the state the
      run before it ended in, as it is: what a checkpoint store does to a state while it
      keeps it is not part of the graph\<close>
  start: "reachable default_state"
| step: "reachable s \<Longrightarrow> invoke e s input = Some r \<Longrightarrow> reachable (final r)"


section \<open>Example collaborators and states\<close>

definition offline_env :: env where
  \<comment> \<open>every call to the world outside throws\<close>
  "offline_env =
     \<lparr>retriever_invoke = (\<lambda>q. Inl ''connect ECONNREFUSED''),
      llm_invoke = (\<lambda>p. Inl ''Request timed out.''),
      chain_invoke = (\<lambda>c h q. Inl ''Request timed out.''),
      SLACK_WEBHOOK_URL = None,
      fetch = (\<lambda>u m. Inl ''fetch failed''),
      now = ''11/2/2026, 9:00:00 AM''\<rparr>"

definition llm8 :: string where
  \<open>llm8 = ''{"score": 8, "reason": "ready to buy"}''\<close>

definition llm_high :: string where
  \<open>llm_high = ''{"score": "high"}''\<close>

definition scripted_env :: env where
  \<comment> \<open>nothing is retrieved, the model scores every conversation 8 and answers \<open>Sure.\<close>\<close>
  "scripted_env =
     \<lparr>retriever_invoke = (\<lambda>q. Inr []),
      llm_invoke = (\<lambda>p. Inr llm8),
      chain_invoke = (\<lambda>c h q. Inr ''Sure.''),
      SLACK_WEBHOOK_URL = Some ''https://hooks.slack.com/services/T0/B0/X'',
      fetch = (\<lambda>u m. Inr True),
      now = ''11/2/2026, 9:00:00 AM''\<rparr>"

definition nan_env :: env where
  \<comment> \<open>as \<open>scripted_env\<close>, but the model gives its score as a word\<close>
  "nan_env = scripted_env\<lparr>llm_invoke := (\<lambda>p. Inr llm_high)\<rparr>"

definition llm_prose :: string where
  "llm_prose = ''Probably a seven.''"

definition llm_broken :: string where
  \<open>llm_broken = ''{"score": 7,}''\<close>

definition prose_env :: env where
  \<comment> \<open>as \<open>scripted_env\<close>, but the model answers without any JSON\<close>
  "prose_env = scripted_env\<lparr>llm_invoke := (\<lambda>p. Inr llm_prose)\<rparr>"

definition broken_env :: env where
  \<comment> \<open>as \<open>scripted_env\<close>, but the model answers with JSON that does not parse\<close>
  "broken_env = scripted_env\<lparr>llm_invoke := (\<lambda>p. Inr llm_broken)\<rparr>"

definition collecting_state :: graph_state where
  \<comment> \<open>a thread that has been asked for its email address\<close>
  "collecting_state =
     default_state\<lparr>messages := [HumanMessage ''How much is the team plan?''],
                   collectingContact := True\<rparr>"

definition hello_state :: graph_state where
  "hello_state = default_state\<lparr>messages := [HumanMessage ''Hello'']\<rparr>"

definition jane_text :: string where
  "jane_text = ''my email is x@y.com, I'm Jane from Acme''"

definition jane_info :: contact_info where
  "jane_info = \<lparr>name = Some ''Jane from Acme'', email = Some ''x@y.com'',
                 company = Some ''Acme'', collected = True\<rparr>"

definition jane_state :: graph_state where
  \<comment> \<open>the contact collector is entered with a high score, not collecting\<close>
  "jane_state =
     default_state\<lparr>messages := [HumanMessage ''Hello'', AIMessage ''Sure.'', HumanMessage jane_text],
                   interestScore := Num 8\<rparr>"

definition pending_state :: graph_state where
  \<comment> \<open>the generator is entered with the thanks of the collector waiting\<close>
  "pending_state =
     jane_state\<lparr>contactInfo := jane_info,
                appendMessage := thankYouMessage (Some ''Jane from Acme'')\<rparr>"

definition next_state :: "env \<Rightarrow> graph_state \<Rightarrow> message list \<Rightarrow> graph_state" where
  \<comment> \<open>the state in which a run on an input leaves the thread\<close>
  "next_state e s input = final (after_run e (with_input s input))"

text \<open>A thread of three runs: a greeting, the contact details, a word of thanks.\<close>

definition thread1 :: graph_state where
  "thread1 = next_state scripted_env default_state [HumanMessage ''Hello'']"

definition thread2 :: graph_state where
  "thread2 = next_state scripted_env thread1 [HumanMessage jane_text]"

definition thread3 :: graph_state where
  "thread3 = next_state scripted_env thread2 [HumanMessage ''thanks'']"

text \<open>The states of this thread after its second and after its third run, written out.\<close>

definition lead_state :: graph_state where
  "lead_state =
     \<lparr>messages =
        [HumanMessage ''Hello'', AIMessage ''Sure.'',
         HumanMessage ''my email is x@y.com, I'm Jane from Acme'',
         AIMessage ''Sure.\<newline>\<newline>\<newline>\<newline>---\<newline>\<newline>Thank you Jane from Acme! I've noted your contact information. Our team will reach out to you shortly to discuss how Botpress can help with your chatbot needs.''],
      retrievedDocs = [],
      answer = ''Sure.\<newline>\<newline>\<newline>\<newline>---\<newline>\<newline>Thank you Jane from Acme! I've noted your contact information. Our team will reach out to you shortly to discuss how Botpress can help with your chatbot needs.'',
      errors = [''No relevant documents found'', ''No relevant documents found''],
      interestScore = Num 8,
      contactInfo = \<lparr>name = Some ''Jane from Acme'', email = Some ''x@y.com'',
                      company = Some ''Acme'', collected = True\<rparr>,
      collectingContact = False,
      appendMessage = []\<rparr>"

definition asked_again_state :: graph_state where
  "asked_again_state =
     \<lparr>messages =
        [HumanMessage ''Hello'', AIMessage ''Sure.'',
         HumanMessage ''my email is x@y.com, I'm Jane from Acme'',
         AIMessage ''Sure.\<newline>\<newline>\<newline>\<newline>---\<newline>\<newline>Thank you Jane from Acme! I've noted your contact information. Our team will reach out to you shortly to discuss how Botpress can help with your chatbot needs.'',
         HumanMessage ''thanks'',
         AIMessage ''Sure.\<newline>\<newline>\<newline>\<newline>---\<newline>\<newline>I can see you're interested in Botpress! I'd love to connect you with our team to discuss your specific needs. Could you share your email address?''],
      retrievedDocs = [],
      answer = ''Sure.\<newline>\<newline>\<newline>\<newline>---\<newline>\<newline>I can see you're interested in Botpress! I'd love to connect you with our team to discuss your specific needs. Could you share your email address?'',
      errors = [''No relevant documents found'', ''No relevant documents found'',
                ''No relevant documents found''],
      interestScore = Num 8,
      contactInfo = \<lparr>name = Some ''Jane from Acme'', email = Some ''x@y.com'',
                      company = Some ''Acme'', collected = True\<rparr>,
      collectingContact = True,
      appendMessage = []\<rparr>"


section \<open>The run as the composition of its stages\<close>

declare search.simps [simp del]

lemma run_eq: "run e s = Some (after_run e s)"
  by (simp add: run_def after_run_def notifies_def collects_def after_generator_def
      after_collector_def after_evaluator_def after_retriever_def
      next_node_def node_fn_def shouldCollectContact_def afterContactCollection_def
      eval_nat_numeral)

lemma invoke_eq: "invoke e s input = Some (after_run e (with_input s input))"
  by (simp add: invoke_def run_eq)

lemma with_input_fields:
  "messages (with_input s input) = messages s @ input"
  "retrievedDocs (with_input s input) = retrievedDocs s"
  "answer (with_input s input) = answer s"
  "errors (with_input s input) = errors s"
  "interestScore (with_input s input) = interestScore s"
  "contactInfo (with_input s input) = contactInfo s"
  "collectingContact (with_input s input) = collectingContact s"
  "appendMessage (with_input s input) = appendMessage s"
  by (simp_all add: with_input_def concat_reducer_def)

lemma default_fields:
  "messages default_state = []"
  "interestScore default_state = Num 0"
  "\<not> collected (contactInfo default_state)"
  "\<not> collectingContact default_state"
  "appendMessage default_state = []"
  by (simp_all add: default_state_def)

lemma invoke_next_state: "map_option final (invoke e s input) = Some (next_state e s input)"
  by (simp add: invoke_eq next_state_def)


section \<open>Which channels a node writes\<close>

lemma retriever_writes:
  "u_messages (fst (retrieverNode e s)) = None"
  "u_answer (fst (retrieverNode e s)) = None"
  "u_interestScore (fst (retrieverNode e s)) = None"
  "u_contactInfo (fst (retrieverNode e s)) = None"
  "u_collectingContact (fst (retrieverNode e s)) = None"
  "u_appendMessage (fst (retrieverNode e s)) = None"
  by (simp_all add: retrieverNode_def retrieval_failed_def empty_update_def split: sum.splits)

lemma evaluator_writes:
  "u_messages (fst (interestEvaluatorNode e s)) = None"
  "u_retrievedDocs (fst (interestEvaluatorNode e s)) = None"
  "u_answer (fst (interestEvaluatorNode e s)) = None"
  "u_errors (fst (interestEvaluatorNode e s)) = None"
  "u_contactInfo (fst (interestEvaluatorNode e s)) = None"
  "u_collectingContact (fst (interestEvaluatorNode e s)) = None"
  "u_appendMessage (fst (interestEvaluatorNode e s)) = None"
  by (simp_all add: interestEvaluatorNode_def score_update_def empty_update_def Let_def
      split: sum.splits option.splits)

lemma collector_writes:
  "u_messages (fst (contactCollectorNode s)) = None"
  "u_retrievedDocs (fst (contactCollectorNode s)) = None"
  "u_answer (fst (contactCollectorNode s)) = None"
  "u_errors (fst (contactCollectorNode s)) = None"
  "u_interestScore (fst (contactCollectorNode s)) = None"
  by (simp_all add: contactCollectorNode_def empty_update_def Let_def split: option.splits)

lemma collector_contact:
  "u_contactInfo (fst (contactCollectorNode s)) = Some info \<Longrightarrow> collected info"
  by (auto simp add: contactCollectorNode_def empty_update_def Let_def
      split: option.splits if_splits)

lemma collector_found:
  "search True emailRegex (lastUserMessage (messages s)) = Some m \<Longrightarrow>
   u_collectingContact (fst (contactCollectorNode s)) = Some False \<and>
   (\<exists>info. u_contactInfo (fst (contactCollectorNode s)) = Some info \<and> collected info)"
  by (simp add: contactCollectorNode_def empty_update_def Let_def)

lemma collector_not_found:
  "search True emailRegex (lastUserMessage (messages s)) = None \<Longrightarrow>
   u_contactInfo (fst (contactCollectorNode s)) = None \<and>
   u_collectingContact (fst (contactCollectorNode s)) =
     (if collectingContact s then None else Some True)"
  by (simp add: contactCollectorNode_def empty_update_def)

lemma generator_writes:
  "u_retrievedDocs (fst (generatorNode e s)) = None"
  "u_interestScore (fst (generatorNode e s)) = None"
  "u_contactInfo (fst (generatorNode e s)) = None"
  "u_collectingContact (fst (generatorNode e s)) = None"
  by (simp_all add: generatorNode_def generation_failed_def empty_update_def Let_def
      split: sum.splits)

lemma generator_answers:
  "\<exists>a. u_answer (fst (generatorNode e s)) = Some a \<and>
       u_messages (fst (generatorNode e s)) = Some [AIMessage a]"
  by (simp add: generatorNode_def generation_failed_def empty_update_def Let_def
      split: sum.splits)

lemma notifier_writes: "fst (slackNotifierNode e s) = empty_update"
  by (simp add: slackNotifierNode_def Let_def split: sum.splits)

lemma apply_update_empty: "apply_update s empty_update = s"
  by (simp add: apply_update_def empty_update_def channel_def)


section \<open>What each stage of a run keeps\<close>

lemma after_retriever_keeps:
  "messages (after_retriever e s) = messages s"
  "answer (after_retriever e s) = answer s"
  "interestScore (after_retriever e s) = interestScore s"
  "contactInfo (after_retriever e s) = contactInfo s"
  "collectingContact (after_retriever e s) = collectingContact s"
  "appendMessage (after_retriever e s) = appendMessage s"
  by (simp_all add: after_retriever_def apply_update_def channel_def retriever_writes)

lemma after_evaluator_keeps:
  "messages (after_evaluator e s) = messages s"
  "answer (after_evaluator e s) = answer s"
  "contactInfo (after_evaluator e s) = contactInfo s"
  "collectingContact (after_evaluator e s) = collectingContact s"
  "appendMessage (after_evaluator e s) = appendMessage s"
  "retrievedDocs (after_evaluator e s) = retrievedDocs (after_retriever e s)"
  "errors (after_evaluator e s) = errors (after_retriever e s)"
  by (simp_all add: after_evaluator_def apply_update_def channel_def evaluator_writes
      after_retriever_keeps)

lemma after_collector_keeps:
  "messages (after_collector e s) = messages s"
  "answer (after_collector e s) = answer s"
  "retrievedDocs (after_collector e s) = retrievedDocs (after_retriever e s)"
  "errors (after_collector e s) = errors (after_retriever e s)"
  "interestScore (after_collector e s) = interestScore (after_evaluator e s)"
  by (simp_all add: after_collector_def apply_update_def channel_def collector_writes
      after_evaluator_keeps)

lemma after_generator_keeps:
  "contactInfo (after_generator e s) = contactInfo (after_collector e s)"
  "collectingContact (after_generator e s) = collectingContact (after_collector e s)"
  "interestScore (after_generator e s) = interestScore (after_evaluator e s)"
  "retrievedDocs (after_generator e s) = retrievedDocs (after_retriever e s)"
  by (simp_all add: after_generator_def apply_update_def channel_def generator_writes
      after_collector_keeps)

lemma final_after_run: "final (after_run e s) = after_generator e s"
  by (simp add: after_run_def notifier_writes apply_update_empty)

lemma visited_after_run:
  "visited (after_run e s) =
     [''retriever'', ''interest_evaluator'']
     @ (if collects e s then [''contact_collector''] else [])
     @ [''generator'']
     @ (if notifies e s then [''slack_notifier''] else [])"
  by (simp add: after_run_def)

lemma messages_after_run:
  "messages (final (after_run e s)) = messages s @ [AIMessage (answer (final (after_run e s)))]"
proof -
  obtain a where a: "u_answer (fst (generatorNode e (after_collector e s))) = Some a"
    "u_messages (fst (generatorNode e (after_collector e s))) = Some [AIMessage a]"
    using generator_answers by blast
  then show ?thesis
    by (simp add: final_after_run after_generator_def apply_update_def channel_def
        replace_reducer_def concat_reducer_def after_collector_keeps)
qed

lemma contact_after_collector:
  "contactInfo (after_collector e s) =
     (if collects e s
      then (case u_contactInfo (fst (contactCollectorNode (after_evaluator e s))) of
              None \<Rightarrow> contactInfo s | Some info \<Rightarrow> info)
      else contactInfo s)"
  by (simp add: after_collector_def apply_update_def channel_def replace_reducer_def
      after_evaluator_keeps split: option.splits)

lemma collecting_after_collector:
  "collectingContact (after_collector e s) =
     (if collects e s
      then (case u_collectingContact (fst (contactCollectorNode (after_evaluator e s))) of
              None \<Rightarrow> collectingContact s | Some b \<Rightarrow> b)
      else collectingContact s)"
  by (simp add: after_collector_def apply_update_def channel_def replace_reducer_def
      after_evaluator_keeps split: option.splits)

lemma collected_after_collector:
  "collected (contactInfo s) \<Longrightarrow> collected (contactInfo (after_collector e s))"
  by (auto simp add: contact_after_collector dest: collector_contact split: option.splits)

lemma collects_iff:
  "collects e s \<longleftrightarrow>
     collectingContact s \<or> collected (contactInfo s)
     \<or> js_less_eq (Num 7) (interestScore (after_evaluator e s))"
  by (simp add: collects_def shouldCollectContact_def after_evaluator_keeps)

lemma notifies_iff: "notifies e s = collected (contactInfo (after_collector e s))"
  by (simp add: notifies_def afterContactCollection_def after_generator_keeps)

lemma score_after_evaluator:
  "interestScore (after_evaluator e s) =
     (case u_interestScore (fst (interestEvaluatorNode e (after_retriever e s))) of
        None \<Rightarrow> interestScore s
      | Some n \<Rightarrow> Math_max (interestScore s) n)"
  by (simp add: after_evaluator_def apply_update_def channel_def interestScore_reducer_def
      nullish_def after_retriever_keeps split: option.splits)

lemma notifier_events:
  "filter is_fetch (snd (slackNotifierNode e s)) =
     (if collected (contactInfo s) \<and> truthy (SLACK_WEBHOOK_URL e)
      then [Fetch (or_else (SLACK_WEBHOOK_URL e) [])
              \<lparr>name_field = or_else (name (contactInfo s)) ''Not provided'',
               email_field = email (contactInfo s),
               company_field = or_else (company (contactInfo s)) ''Not provided'',
               score_field = interestScore s, captured_at = now e\<rparr>]
      else [])"
  by (simp add: slackNotifierNode_def Let_def split: sum.splits)

lemma other_events:
  "filter is_fetch (snd (retrieverNode e s)) = []"
  "filter is_fetch (snd (interestEvaluatorNode e s)) = []"
  "filter is_fetch (snd (contactCollectorNode s)) = []"
  "filter is_fetch (snd (generatorNode e s)) = []"
  by (simp_all add: retrieverNode_def interestEvaluatorNode_def contactCollectorNode_def
      generatorNode_def Let_def split: sum.splits option.splits)

lemma fetches_after_run:
  "filter is_fetch (events (after_run e s)) =
     (if notifies e s then filter is_fetch (snd (slackNotifierNode e (after_generator e s)))
      else [])"
  by (simp add: after_run_def other_events)


section \<open>The example texts, evaluated\<close>

lemma email_jane: "search True emailRegex jane_text = Some (''x@y.com'', [])"
  by (simp add: search.simps jane_text_def emailRegex_def cls_match_def to_upper_def to_lower_def)

lemma name_jane:
  "search True nameRegex jane_text = Some (''I'm Jane from Acme'', ['' Jane from Acme''])"
  by (simp add: search.simps jane_text_def nameRegex_def cls_match_def to_upper_def to_lower_def)

lemma company_jane: "search True companyRegex jane_text = Some (''from Acme'', [''Acme''])"
  by (simp add: search.simps jane_text_def companyRegex_def cls_match_def to_upper_def to_lower_def)

lemma email_thanks: "search True emailRegex ''thanks'' = None"
  by (simp add: search.simps emailRegex_def cls_match_def to_upper_def to_lower_def)

lemma json_llm8: "search False jsonRegex llm8 = Some (llm8, [])"
  by (simp add: search.simps llm8_def jsonRegex_def cls_match_def)

lemma json_high: "search False jsonRegex llm_high = Some (llm_high, [])"
  by (simp add: search.simps llm_high_def jsonRegex_def cls_match_def)

lemma parse_llm8:
  "JSON_parse llm8 =
     Some (JObj [(map of_char ''score'', JNum 8),
                 (map of_char ''reason'', JStr (map of_char ''ready to buy''))])"
  by (simp add: llm8_def JSON_parse_def idle_step_def is_word_cu_def is_digit_def
      unescape_def word_value_def json_number_def split_frac_def split_exp_def exp_ok_def
      decimal_value_def digit_val_def Let_def)

lemma parse_high:
  "JSON_parse llm_high = Some (JObj [(map of_char ''score'', JStr (map of_char ''high''))])"
  by (simp add: llm_high_def JSON_parse_def idle_step_def is_word_cu_def is_digit_def
      unescape_def word_value_def)

lemma evaluator_llm8:
  "\<not> collectingContact s \<Longrightarrow> 3 \<le> length (messages s) \<Longrightarrow> llm_invoke e = (\<lambda>p. Inr llm8) \<Longrightarrow>
   fst (interestEvaluatorNode e s) = empty_update\<lparr>u_interestScore := Some (Num 8)\<rparr>"
  by (simp add: interestEvaluatorNode_def Let_def json_llm8 parse_llm8 score_update_def
      result_score_def Math_max_def Math_min_def)

lemma evaluator_high:
  "\<not> collectingContact s \<Longrightarrow> 3 \<le> length (messages s) \<Longrightarrow> llm_invoke e = (\<lambda>p. Inr llm_high) \<Longrightarrow>
   fst (interestEvaluatorNode e s) = empty_update\<lparr>u_interestScore := Some NaN\<rparr>"
  by (simp add: interestEvaluatorNode_def Let_def json_high parse_high score_update_def
      result_score_def StringToNumber_def is_str_ws_def split_sign_def
      split_frac_def split_exp_def radix_literal_def exp_ok_def is_digit_def
      Math_max_def Math_min_def)

lemma last_user_message_snoc: "lastUserMessage (ms @ [HumanMessage t]) = t"
  by (simp add: lastUserMessage_def HumanMessage_def)

lemma thanks_jane:
  "thankYouMessage (Some ''Jane from Acme'') =
     ''\<newline>\<newline>---\<newline>\<newline>Thank you Jane from Acme! I've noted your contact information. Our team will reach out to you shortly to discuss how Botpress can help with your chatbot needs.''"
  by (simp add: thankYouMessage_def truthy_def or_else_def)

lemma collector_jane:
  "lastUserMessage (messages s) = jane_text \<Longrightarrow>
   fst (contactCollectorNode s) =
     empty_update\<lparr>u_contactInfo := Some jane_info, u_collectingContact := Some False,
                  u_appendMessage := Some (thankYouMessage (Some ''Jane from Acme''))\<rparr>"
  by (simp add: contactCollectorNode_def Let_def email_jane name_jane company_jane
      group1_def trim_def is_space_def jane_info_def)

lemma collector_thanks:
  assumes "lastUserMessage (messages s) = ''thanks''" and "\<not> collectingContact s"
  shows "u_contactInfo (fst (contactCollectorNode s)) = None \<and>
         u_collectingContact (fst (contactCollectorNode s)) = Some True"
proof -
  have "search True emailRegex (lastUserMessage (messages s)) = None"
    by (simp only: assms(1) email_thanks)
  from collector_not_found [OF this] assms(2) show ?thesis
    by simp
qed


section \<open>The example thread, run by run\<close>

lemma thread1_facts:
  "messages thread1 = [HumanMessage ''Hello'', AIMessage ''Sure.'']"
  "\<not> collectingContact thread1"
  "\<not> collected (contactInfo thread1)"
  "interestScore thread1 = Num 0"
proof -
  let ?s = "with_input default_state [HumanMessage ''Hello'']"
  have ev: "fst (interestEvaluatorNode scripted_env (after_retriever scripted_env ?s))
              = empty_update\<lparr>u_interestScore := Some (Num 0)\<rparr>"
    by (simp add: interestEvaluatorNode_def score_update_def after_retriever_keeps
        with_input_fields default_fields)
  have sc: "interestScore (after_evaluator scripted_env ?s) = Num 0"
    by (simp add: score_after_evaluator ev empty_update_def Math_max_def
        with_input_fields default_fields)
  have co: "\<not> collects scripted_env ?s"
    by (simp add: collects_iff sc with_input_fields default_fields)
  have g: "fst (generatorNode scripted_env (after_collector scripted_env ?s)) =
             empty_update\<lparr>u_answer := Some ''Sure.'', u_messages := Some [AIMessage ''Sure.''],
                          u_appendMessage := Some []\<rparr>"
    using co
    by (simp add: generatorNode_def last_content_def after_collector_keeps Let_def
        scripted_env_def after_collector_def after_evaluator_keeps
        with_input_fields default_fields)
  show "messages thread1 = [HumanMessage ''Hello'', AIMessage ''Sure.'']"
    by (simp add: thread1_def next_state_def final_after_run after_generator_def g
        apply_update_def channel_def concat_reducer_def empty_update_def after_collector_keeps
        with_input_fields default_fields)
  show "\<not> collectingContact thread1"
    using co
    by (simp add: thread1_def next_state_def final_after_run after_generator_keeps
        collecting_after_collector with_input_fields default_fields)
  show "\<not> collected (contactInfo thread1)"
    using co
    by (simp add: thread1_def next_state_def final_after_run after_generator_keeps
        contact_after_collector with_input_fields default_fields)
  show "interestScore thread1 = Num 0"
    by (simp add: thread1_def next_state_def final_after_run after_generator_keeps sc)
qed

lemma thread2_collects:
  "interestScore (after_evaluator scripted_env (with_input thread1 [HumanMessage jane_text])) = Num 8"
  "collects scripted_env (with_input thread1 [HumanMessage jane_text])"
proof -
  let ?s = "with_input thread1 [HumanMessage jane_text]"
  have ev: "fst (interestEvaluatorNode scripted_env (after_retriever scripted_env ?s))
              = empty_update\<lparr>u_interestScore := Some (Num 8)\<rparr>"
    by (rule evaluator_llm8)
       (simp_all add: after_retriever_keeps with_input_fields thread1_facts scripted_env_def)
  show sc: "interestScore (after_evaluator scripted_env ?s) = Num 8"
    by (simp add: score_after_evaluator ev empty_update_def Math_max_def
        with_input_fields thread1_facts)
  show "collects scripted_env ?s"
    by (simp add: collects_iff sc)
qed

lemma thread2_facts:
  "contactInfo thread2 = jane_info"
  "\<not> collectingContact thread2"
  "interestScore thread2 = Num 8"
  "length (messages thread2) = 4"
proof -
  let ?s = "with_input thread1 [HumanMessage jane_text]"
  have cc: "fst (contactCollectorNode (after_evaluator scripted_env ?s)) =
     empty_update\<lparr>u_contactInfo := Some jane_info, u_collectingContact := Some False,
                  u_appendMessage := Some (thankYouMessage (Some ''Jane from Acme''))\<rparr>"
    by (rule collector_jane)
       (simp add: after_evaluator_keeps with_input_fields last_user_message_snoc)
  show "contactInfo thread2 = jane_info"
    by (simp add: thread2_def next_state_def final_after_run after_generator_keeps
        contact_after_collector thread2_collects cc empty_update_def)
  show "\<not> collectingContact thread2"
    by (simp add: thread2_def next_state_def final_after_run after_generator_keeps
        collecting_after_collector thread2_collects cc empty_update_def)
  show "interestScore thread2 = Num 8"
    by (simp add: thread2_def next_state_def final_after_run after_generator_keeps
        thread2_collects)
  show "length (messages thread2) = 4"
    using messages_after_run [of scripted_env ?s]
    by (simp add: thread2_def next_state_def with_input_fields thread1_facts)
qed

lemma thread3_facts:
  "collects scripted_env (with_input thread2 [HumanMessage ''thanks''])"
  "notifies scripted_env (with_input thread2 [HumanMessage ''thanks''])"
  "contactInfo thread3 = jane_info"
  "collectingContact thread3"
  "interestScore thread3 = Num 8"
proof -
  let ?s = "with_input thread2 [HumanMessage ''thanks'']"
  have ev: "fst (interestEvaluatorNode scripted_env (after_retriever scripted_env ?s))
              = empty_update\<lparr>u_interestScore := Some (Num 8)\<rparr>"
    by (rule evaluator_llm8)
       (simp_all add: after_retriever_keeps with_input_fields thread2_facts scripted_env_def)
  show "interestScore thread3 = Num 8"
    by (simp add: thread3_def next_state_def final_after_run after_generator_keeps
        score_after_evaluator ev empty_update_def Math_max_def with_input_fields thread2_facts)
  show co: "collects scripted_env ?s"
    by (simp add: collects_iff with_input_fields thread2_facts jane_info_def)
  have cc: "u_contactInfo (fst (contactCollectorNode (after_evaluator scripted_env ?s))) = None \<and>
     u_collectingContact (fst (contactCollectorNode (after_evaluator scripted_env ?s))) = Some True"
    by (rule collector_thanks)
       (simp_all add: after_evaluator_keeps with_input_fields last_user_message_snoc
          thread2_facts)
  show "notifies scripted_env ?s"
    by (simp add: notifies_iff contact_after_collector co cc with_input_fields
        thread2_facts jane_info_def)
  show "contactInfo thread3 = jane_info"
    by (simp add: thread3_def next_state_def final_after_run after_generator_keeps
        contact_after_collector co cc with_input_fields thread2_facts)
  show "collectingContact thread3"
    by (simp add: thread3_def next_state_def final_after_run after_generator_keeps
        collecting_after_collector co cc)
qed

lemma reachable_next: "reachable s \<Longrightarrow> reachable (next_state e s input)"
  using reachable.step [of s e input "after_run e (with_input s input)"]
  by (simp add: invoke_eq next_state_def)

lemma reachable_threads: "reachable thread1" "reachable thread2" "reachable thread3"
  by (simp_all add: thread1_def thread2_def thread3_def reachable_next reachable.start)

lemmas stage_defs = next_state_def after_run_def after_generator_def after_collector_def
  collects_def notifies_def after_evaluator_def after_retriever_def with_input_def
  retrieverNode_def interestEvaluatorNode_def contactCollectorNode_def generatorNode_def
  slackNotifierNode_def shouldCollectContact_def afterContactCollection_def apply_update_def
  channel_def concat_reducer_def replace_reducer_def interestScore_reducer_def nullish_def
  Math_max_def Math_min_def empty_update_def score_update_def last_content_def
  prompt_context_def Let_def lastUserMessage_def HumanMessage_def AIMessage_def
  result_score_def truthy_def or_else_def group1_def trim_def is_space_def

lemma thread1_value:
  "thread1 =
     \<lparr>messages = [HumanMessage ''Hello'', AIMessage ''Sure.''], retrievedDocs = [],
      answer = ''Sure.'', errors = [''No relevant documents found''], interestScore = Num 0,
      contactInfo = \<lparr>name = None, email = None, company = None, collected = False\<rparr>,
      collectingContact = False, appendMessage = []\<rparr>"
  by (simp add: thread1_def stage_defs default_state_def scripted_env_def)

lemma thread2_value: "thread2 = lead_state"
  by (simp add: thread2_def thread1_value lead_state_def stage_defs scripted_env_def
      jane_text_def email_jane [unfolded jane_text_def] name_jane [unfolded jane_text_def]
      company_jane [unfolded jane_text_def] json_llm8 parse_llm8 thankYouMessage_def)

lemma thread3_value: "thread3 = asked_again_state"
  by (simp add: thread3_def thread2_value lead_state_def asked_again_state_def stage_defs
      scripted_env_def email_thanks json_llm8 parse_llm8 requestMessage_def)



section \<open>Interest evaluation: when the model is not asked\<close>

text \<open>
  C7. The interest evaluator returns no update whenever \<open>collectingContact\<close> is true, and
  with fewer than 3 messages (and \<open>collectingContact\<close> false) it returns
  \<open>interestScore = 0\<close>. In both cases it makes no call (its list of events is empty) and
  the result does not depend on the collaborators \<open>e\<close>.
\<close>

theorem C7_evaluator_skips:
  "(collectingContact s \<longrightarrow> interestEvaluatorNode e s = (empty_update, []))
   \<and> (\<not> collectingContact s \<and> length (messages s) < 3 \<longrightarrow>
        interestEvaluatorNode e s = (empty_update\<lparr>u_interestScore := Some (Num 0)\<rparr>, []))"
  by (simp add: interestEvaluatorNode_def score_update_def)

theorem C7_evaluator_skips_witness:
  "collectingContact collecting_state
   \<and> interestEvaluatorNode offline_env collecting_state = (empty_update, [])
   \<and> \<not> collectingContact default_state \<and> length (messages default_state) < 3
   \<and> interestEvaluatorNode offline_env default_state =
       (empty_update\<lparr>u_interestScore := Some (Num 0)\<rparr>, [])"
  using C7_evaluator_skips [of collecting_state offline_env]
    C7_evaluator_skips [of default_state offline_env]
  by (simp add: collecting_state_def default_state_def)


section \<open>Notification\<close>

text \<open>
  C1, as stated: the notifier runs only in the run that collected the contact information;
  a run that starts with \<open>contactInfo.collected\<close> already true and collects nothing new
  ends after the generator, without another POST. The third run of the example thread
  refutes it: in \<open>lead_state\<close> the thread has Jane's contact from the second run, the
  message \<open>thanks\<close> has no email address, and the run goes on to the notifier and POSTs
  the same lead again.
\<close>

theorem C1_notified_again:
  "reachable lead_state \<and> collected (contactInfo lead_state)
   \<and> search True emailRegex (lastUserMessage (messages (with_input lead_state [HumanMessage ''thanks''])))
       = None
   \<and> map_option (contactInfo \<circ> final) (invoke scripted_env lead_state [HumanMessage ''thanks''])
       = Some (contactInfo lead_state)
   \<and> map_option visited (invoke scripted_env lead_state [HumanMessage ''thanks''])
       = Some [''retriever'', ''interest_evaluator'', ''contact_collector'', ''generator'',
               ''slack_notifier'']
   \<and> map_option (filter is_fetch \<circ> events) (invoke scripted_env lead_state [HumanMessage ''thanks''])
       = Some [Fetch ''https://hooks.slack.com/services/T0/B0/X''
                 \<lparr>name_field = ''Jane from Acme'', email_field = Some ''x@y.com'',
                  company_field = ''Acme'', score_field = Num 8,
                  captured_at = ''11/2/2026, 9:00:00 AM''\<rparr>]"
proof -
  let ?s = "with_input thread2 [HumanMessage ''thanks'']"
  have g: "contactInfo (after_generator scripted_env ?s) = jane_info"
    "interestScore (after_generator scripted_env ?s) = Num 8"
    using thread3_facts(3,5) by (simp_all add: thread3_def next_state_def final_after_run)
  have f: "filter is_fetch (events (after_run scripted_env ?s)) =
      [Fetch ''https://hooks.slack.com/services/T0/B0/X''
         \<lparr>name_field = ''Jane from Acme'', email_field = Some ''x@y.com'',
          company_field = ''Acme'', score_field = Num 8,
          captured_at = ''11/2/2026, 9:00:00 AM''\<rparr>]"
    by (simp add: fetches_after_run thread3_facts notifier_events g)
       (simp add: jane_info_def scripted_env_def truthy_def or_else_def)
  have c: "contactInfo (final (after_run scripted_env ?s)) = contactInfo thread2"
    by (simp add: final_after_run g thread2_facts)
  have n: "search True emailRegex (lastUserMessage (messages ?s)) = None"
    by (simp only: with_input_fields last_user_message_snoc email_thanks)
  have t: "collected (contactInfo thread2)"
    by (simp add: thread2_facts jane_info_def)
  have "reachable thread2 \<and> collected (contactInfo thread2)
   \<and> search True emailRegex (lastUserMessage (messages ?s)) = None
   \<and> map_option (contactInfo \<circ> final) (invoke scripted_env thread2 [HumanMessage ''thanks''])
       = Some (contactInfo thread2)
   \<and> map_option visited (invoke scripted_env thread2 [HumanMessage ''thanks''])
       = Some [''retriever'', ''interest_evaluator'', ''contact_collector'', ''generator'',
               ''slack_notifier'']
   \<and> map_option (filter is_fetch \<circ> events) (invoke scripted_env thread2 [HumanMessage ''thanks''])
       = Some [Fetch ''https://hooks.slack.com/services/T0/B0/X''
                 \<lparr>name_field = ''Jane from Acme'', email_field = Some ''x@y.com'',
                  company_field = ''Acme'', score_field = Num 8,
                  captured_at = ''11/2/2026, 9:00:00 AM''\<rparr>]"
    using f c n t
    by (simp add: invoke_eq visited_after_run thread3_facts reachable_threads)
  then show ?thesis
    unfolding thread2_value .
qed

text \<open>
  C1, amended: the notifier runs in every run that leaves the generator with
  \<open>contactInfo.collected\<close> true, which is the run that collected the contact information
  and every later run of the thread (a run that starts with \<open>collected\<close> true always
  reaches the notifier). A run POSTs at most once, and exactly once when it reaches the
  notifier with the webhook URL configured.
\<close>

theorem C1_notifies_whenever_collected:
  "\<exists>r. run e s = Some r
     \<and> (''slack_notifier'' \<in> set (visited r) \<longleftrightarrow> collected (contactInfo (final r)))
     \<and> (collected (contactInfo s) \<longrightarrow> ''slack_notifier'' \<in> set (visited r))
     \<and> length (filter is_fetch (events r)) \<le> 1
     \<and> (collected (contactInfo (final r)) \<and> truthy (SLACK_WEBHOOK_URL e) \<longrightarrow>
          length (filter is_fetch (events r)) = 1)"
proof -
  have v: "''slack_notifier'' \<in> set (visited (after_run e s)) \<longleftrightarrow> notifies e s"
    by (simp add: visited_after_run)
  have n: "notifies e s \<longleftrightarrow> collected (contactInfo (final (after_run e s)))"
    by (simp add: notifies_iff final_after_run after_generator_keeps)
  have c: "collected (contactInfo s) \<longrightarrow> notifies e s"
    by (simp add: notifies_iff collected_after_collector)
  have f: "length (filter is_fetch (events (after_run e s))) \<le> 1"
    by (simp add: fetches_after_run notifier_events)
  have g: "collected (contactInfo (final (after_run e s))) \<and> truthy (SLACK_WEBHOOK_URL e) \<longrightarrow>
          length (filter is_fetch (events (after_run e s))) = 1"
    using n by (simp add: fetches_after_run notifier_events final_after_run)
  show ?thesis
    using v n c f g by (simp add: run_eq)
qed

theorem C1_notifies_whenever_collected_witness:
  "collected (contactInfo (with_input lead_state [HumanMessage ''thanks'']))
   \<and> truthy (SLACK_WEBHOOK_URL scripted_env)
   \<and> (\<exists>r. run scripted_env (with_input lead_state [HumanMessage ''thanks'']) = Some r
          \<and> collected (contactInfo (final r))
          \<and> ''slack_notifier'' \<in> set (visited r)
          \<and> length (filter is_fetch (events r)) = 1)"
proof -
  have h: "collected (contactInfo (with_input lead_state [HumanMessage ''thanks'']))"
    "truthy (SLACK_WEBHOOK_URL scripted_env)"
    by (simp_all add: with_input_fields lead_state_def scripted_env_def truthy_def)
  from C1_notifies_whenever_collected [of scripted_env "with_input lead_state [HumanMessage ''thanks'']"]
  show ?thesis
    using h by blast
qed


section \<open>Collecting mode and collected contact\<close>

text \<open>
  C2, as stated: in no state between two runs are \<open>collectingContact\<close> and
  \<open>contactInfo.collected\<close> both true. The example thread refutes it: after the second
  run (\<open>lead_state\<close>) the contact is collected and the thread is not collecting; the
  third run, on a message without an email address, takes the branch of the collector that
  asks for the address and sets \<open>collectingContact\<close>, while \<open>collected\<close> stays
  true (\<open>asked_again_state\<close>).
\<close>

theorem C2_collecting_while_collected:
  "reachable lead_state \<and> collected (contactInfo lead_state) \<and> \<not> collectingContact lead_state
   \<and> map_option final (invoke scripted_env lead_state [HumanMessage ''thanks''])
       = Some asked_again_state
   \<and> reachable asked_again_state
   \<and> collectingContact asked_again_state \<and> collected (contactInfo asked_again_state)"
proof -
  have "reachable thread2 \<and> collected (contactInfo thread2) \<and> \<not> collectingContact thread2
   \<and> map_option final (invoke scripted_env thread2 [HumanMessage ''thanks'']) = Some thread3
   \<and> reachable thread3 \<and> collectingContact thread3 \<and> collected (contactInfo thread3)"
    by (simp add: reachable_threads thread2_facts thread3_facts jane_info_def
        invoke_next_state thread3_def [symmetric])
  then show ?thesis
    unfolding thread2_value thread3_value .
qed

text \<open>
  C2, amended: collection mode ends in the run that captures the contact. A run that
  starts without a collected contact never ends with both flags true, and every run that
  goes through the collector on a last user message with an email address ends with
  \<open>collectingContact\<close> false and \<open>collected\<close> true.
\<close>

theorem C2_capture_ends_collecting:
  "(\<not> collected (contactInfo s) \<longrightarrow>
      (\<exists>r. invoke e s input = Some r
          \<and> \<not> (collectingContact (final r) \<and> collected (contactInfo (final r)))))
   \<and> (run e s = Some r' \<and> ''contact_collector'' \<in> set (visited r')
       \<and> search True emailRegex (lastUserMessage (messages s)) = Some m \<longrightarrow>
      \<not> collectingContact (final r') \<and> collected (contactInfo (final r')))"
proof -
  have a: "\<not> (collectingContact (after_collector e s') \<and> collected (contactInfo (after_collector e s')))"
    if "\<not> collected (contactInfo s')" for s'
  proof (cases "search True emailRegex (lastUserMessage (messages (after_evaluator e s')))")
    case None
    then show ?thesis
      using that by (simp add: contact_after_collector collector_not_found)
  next
    case (Some m')
    then show ?thesis
      using that collector_found [OF Some]
      by (auto simp add: contact_after_collector collecting_after_collector)
  qed
  have b: "\<not> collectingContact (after_collector e s) \<and> collected (contactInfo (after_collector e s))"
    if "collects e s" "search True emailRegex (lastUserMessage (messages s)) = Some m"
  proof -
    have "search True emailRegex (lastUserMessage (messages (after_evaluator e s))) = Some m"
      using that by (simp add: after_evaluator_keeps)
    from collector_found [OF this] that(1) show ?thesis
      by (auto simp add: contact_after_collector collecting_after_collector)
  qed
  have v: "''contact_collector'' \<in> set (visited (after_run e s)) \<longleftrightarrow> collects e s"
    by (simp add: visited_after_run)
  show ?thesis
    using a [of "with_input s input"] b v
    by (auto simp add: invoke_eq run_eq final_after_run after_generator_keeps with_input_fields)
qed

theorem C2_capture_ends_collecting_witness:
  "\<not> collected (contactInfo thread1)
   \<and> (\<exists>r. invoke scripted_env thread1 [HumanMessage jane_text] = Some r
          \<and> \<not> (collectingContact (final r) \<and> collected (contactInfo (final r))))
   \<and> search True emailRegex (lastUserMessage (messages (with_input thread1 [HumanMessage jane_text])))
        = Some (''x@y.com'', [])
   \<and> (\<exists>r. run scripted_env (with_input thread1 [HumanMessage jane_text]) = Some r
          \<and> ''contact_collector'' \<in> set (visited r)
          \<and> \<not> collectingContact (final r) \<and> collected (contactInfo (final r)))"
proof -
  let ?s = "with_input thread1 [HumanMessage jane_text]"
  have h: "\<not> collected (contactInfo thread1)"
    "run scripted_env ?s = Some (after_run scripted_env ?s)"
    "''contact_collector'' \<in> set (visited (after_run scripted_env ?s))"
    "search True emailRegex (lastUserMessage (messages ?s)) = Some (''x@y.com'', [])"
    by (simp add: thread1_facts, simp add: run_eq,
        simp add: visited_after_run thread2_collects,
        simp only: with_input_fields last_user_message_snoc email_jane)
  from C2_capture_ends_collecting [of thread1 scripted_env "[HumanMessage jane_text]"]
    C2_capture_ends_collecting [of ?s scripted_env _ "after_run scripted_env ?s"
      "(''x@y.com'', [])"]
  show ?thesis
    using h by blast
qed


section \<open>The interest score\<close>

text \<open>
  C3: the merged score is the maximum of the old score and the new one, so the score never
  decreases over the runs of a thread. The code breaks this where the evaluator hands
  \<open>NaN\<close> to the reducer: \<open>Math.max(8, NaN)\<close> is \<open>NaN\<close>. In the example
  thread the score is 8 after the second run (\<open>lead_state\<close>); a third run in which the
  model answers \<open>{"score": "high"}\<close> leaves the thread with the score \<open>NaN\<close>,
  which is not at least 8. For numbers the reducer is the maximum (\<open>reducer_is_max\<close>),
  and a run whose evaluation is not \<open>NaN\<close> does not lower the score
  (\<open>run_score_monotone\<close>).
\<close>

theorem C3_score_lost_to_NaN:
  \<open>llm_invoke nan_env = (\<lambda>p. Inr ''{"score": "high"}'')
   \<and> reachable lead_state \<and> interestScore lead_state = Num 8
   \<and> map_option (interestScore \<circ> final) (invoke nan_env lead_state [HumanMessage ''thanks''])
       = Some NaN
   \<and> interestScore_reducer (Some (Num 8)) (Some NaN) = NaN
   \<and> js_less_eq (Num 8) NaN = False\<close>
proof -
  let ?s = "with_input thread2 [HumanMessage ''thanks'']"
  have ev: "fst (interestEvaluatorNode nan_env (after_retriever nan_env ?s))
              = empty_update\<lparr>u_interestScore := Some NaN\<rparr>"
    by (rule evaluator_high)
       (simp_all add: after_retriever_keeps with_input_fields thread2_facts nan_env_def)
  have "interestScore (final (after_run nan_env ?s)) = NaN"
    by (simp add: final_after_run after_generator_keeps score_after_evaluator ev
        empty_update_def Math_max_def)
  then have "llm_invoke nan_env = (\<lambda>p. Inr llm_high)
   \<and> reachable thread2 \<and> interestScore thread2 = Num 8
   \<and> map_option (interestScore \<circ> final) (invoke nan_env thread2 [HumanMessage ''thanks''])
       = Some NaN
   \<and> interestScore_reducer (Some (Num 8)) (Some NaN) = NaN
   \<and> js_less_eq (Num 8) NaN = False"
    by (simp add: invoke_eq reachable_threads thread2_facts interestScore_reducer_def
        nullish_def Math_max_def nan_env_def)
  then show ?thesis
    unfolding thread2_value llm_high_def .
qed

lemma reducer_is_max:
  "interestScore_reducer (Some (Num a)) (Some (Num b)) = Num (max a b)"
  by (simp add: interestScore_reducer_def nullish_def Math_max_def max_def)

lemma Math_max_ge: "a \<noteq> NaN \<Longrightarrow> b \<noteq> NaN \<Longrightarrow> js_less_eq a (Math_max a b)"
  by (cases a; cases b) (simp_all add: Math_max_def)

lemma run_score_monotone:
  "interestScore s \<noteq> NaN \<Longrightarrow>
   u_interestScore (fst (interestEvaluatorNode e (after_retriever e s))) \<noteq> Some NaN \<Longrightarrow>
   js_less_eq (interestScore s) (interestScore (final (after_run e s)))"
  using Math_max_ge [of "interestScore s"]
  by (cases "interestScore s")
     (auto simp add: final_after_run after_generator_keeps score_after_evaluator
        split: option.splits)

text \<open>
  C8: for every text of the model the evaluator yields a score between 0 and 10. The code
  clamps with \<open>Math.max(0, Math.min(10, result.score))\<close>, which is \<open>NaN\<close> when
  \<open>result.score\<close> is not a number: on the answer \<open>{"score": "high"}\<close> the
  node returns \<open>interestScore = NaN\<close>, neither at least 0 nor at most 10.
\<close>

theorem C8_score_not_clamped:
  \<open>llm_invoke nan_env = (\<lambda>p. Inr ''{"score": "high"}'')
   \<and> \<not> collectingContact jane_state \<and> length (messages jane_state) = 3
   \<and> fst (interestEvaluatorNode nan_env jane_state) = empty_update\<lparr>u_interestScore := Some NaN\<rparr>
   \<and> js_less_eq (Num 0) NaN = False \<and> js_less_eq NaN (Num 10) = False\<close>
proof -
  have h: "\<not> collectingContact jane_state" "3 \<le> length (messages jane_state)"
    "llm_invoke nan_env = (\<lambda>p. Inr llm_high)"
    by (simp_all add: jane_state_def default_state_def nan_env_def)
  from evaluator_high [OF h] show ?thesis
    by (simp add: h) (simp add: jane_state_def default_state_def nan_env_def llm_high_def)
qed

lemma clamp_range:
  "Math_max (Num 0) (Math_min (Num 10) x) = NaN
   \<or> (js_less_eq (Num 0) (Math_max (Num 0) (Math_min (Num 10) x))
      \<and> js_less_eq (Math_max (Num 0) (Math_min (Num 10) x)) (Num 10))"
  by (cases x) (auto simp add: Math_max_def Math_min_def)

lemma evaluator_score_range:
  "u_interestScore (fst (interestEvaluatorNode e s)) = Some n \<Longrightarrow>
   n = NaN \<or> (js_less_eq (Num 0) n \<and> js_less_eq n (Num 10))"
  using clamp_range
  by (auto simp add: interestEvaluatorNode_def score_update_def empty_update_def Let_def
      result_score_def split: if_splits sum.splits option.splits)


lemma evaluator_fallbacks:
  assumes "\<not> collectingContact s" and "3 \<le> length (messages s)"
    and "llm_invoke e = (\<lambda>p. Inr text)"
    and "search False jsonRegex text = None
         \<or> (\<exists>m. search False jsonRegex text = Some m \<and> JSON_parse (fst m) = None)"
  shows "fst (interestEvaluatorNode e s) = empty_update\<lparr>u_interestScore := Some (Num 0)\<rparr>"
  using assms by (auto simp add: interestEvaluatorNode_def score_update_def Let_def)


section \<open>Contact collection\<close>

text \<open>
  C4, as stated: on the last user message \<open>my email is x@y.com, I'm Jane from Acme\<close> the
  collector produces the name \<open>Jane\<close>. The group of the name expression,
  \<open>([a-z\s]+)\<close> under the flag \<open>i\<close>, is greedy and takes letters and spaces to the end
  of the text, so the name is not \<open>Jane\<close>.
\<close>

theorem C4_name_is_not_Jane:
  "lastUserMessage (messages jane_state) = ''my email is x@y.com, I'm Jane from Acme''
   \<and> \<not> collectingContact jane_state
   \<and> u_contactInfo (fst (contactCollectorNode jane_state)) \<noteq>
       Some \<lparr>name = Some ''Jane'', email = Some ''x@y.com'', company = Some ''Acme'',
             collected = True\<rparr>"
proof -
  have l: "lastUserMessage (messages jane_state) = jane_text"
    by (simp add: jane_state_def lastUserMessage_def HumanMessage_def AIMessage_def)
  from collector_jane [OF l] show ?thesis
    by (simp add: l empty_update_def jane_info_def)
       (simp add: jane_text_def jane_state_def default_state_def)
qed

text \<open>
  C4, amended: on that message the collector produces the email \<open>x@y.com\<close>, the name
  \<open>Jane from Acme\<close>, the company \<open>Acme\<close> and \<open>collected\<close> true, and leaves
  collecting mode, whatever the rest of the state.
\<close>

theorem C4_contact_of_jane:
  "lastUserMessage (messages s) = ''my email is x@y.com, I'm Jane from Acme'' \<Longrightarrow>
   u_contactInfo (fst (contactCollectorNode s)) =
     Some \<lparr>name = Some ''Jane from Acme'', email = Some ''x@y.com'', company = Some ''Acme'',
           collected = True\<rparr>
   \<and> u_collectingContact (fst (contactCollectorNode s)) = Some False"
proof -
  assume "lastUserMessage (messages s) = ''my email is x@y.com, I'm Jane from Acme''"
  then have "lastUserMessage (messages s) = jane_text"
    by (simp add: jane_text_def)
  from collector_jane [OF this] show ?thesis
    by (simp add: empty_update_def jane_info_def)
qed

theorem C4_contact_of_jane_witness:
  "lastUserMessage (messages jane_state) = ''my email is x@y.com, I'm Jane from Acme''
   \<and> u_contactInfo (fst (contactCollectorNode jane_state)) =
       Some \<lparr>name = Some ''Jane from Acme'', email = Some ''x@y.com'', company = Some ''Acme'',
             collected = True\<rparr>
   \<and> u_collectingContact (fst (contactCollectorNode jane_state)) = Some False"
proof -
  have l: "lastUserMessage (messages jane_state) = ''my email is x@y.com, I'm Jane from Acme''"
    by (simp add: jane_state_def lastUserMessage_def HumanMessage_def AIMessage_def
        jane_text_def)
  from C4_contact_of_jane [OF l] l show ?thesis
    by simp
qed

text \<open>
  C6: once \<open>contactInfo.collected\<close> is true no run sets it back to false. Only the
  contact collector writes \<open>contactInfo\<close>, every value it writes has \<open>collected\<close>
  true, and so a run on a thread whose contact is collected leaves it collected.
\<close>

theorem C6_collected_never_reset:
  "u_contactInfo (fst (retrieverNode e s)) = None
   \<and> u_contactInfo (fst (interestEvaluatorNode e s)) = None
   \<and> u_contactInfo (fst (generatorNode e s)) = None
   \<and> u_contactInfo (fst (slackNotifierNode e s)) = None
   \<and> (\<forall>info. u_contactInfo (fst (contactCollectorNode s)) = Some info \<longrightarrow> collected info)
   \<and> (collected (contactInfo s) \<longrightarrow>
        (\<exists>r. invoke e s input = Some r \<and> collected (contactInfo (final r))))"
proof -
  have "collected (contactInfo (final (after_run e (with_input s input))))"
    if "collected (contactInfo s)"
    using that collected_after_collector [of "with_input s input" e]
    by (simp add: final_after_run after_generator_keeps with_input_fields)
  then show ?thesis
    using collector_contact [of s]
    by (simp add: invoke_eq retriever_writes evaluator_writes generator_writes notifier_writes
        empty_update_def)
qed

theorem C6_collected_never_reset_witness:
  "u_contactInfo (fst (contactCollectorNode jane_state)) = Some jane_info
   \<and> collected jane_info
   \<and> collected (contactInfo lead_state)
   \<and> (\<exists>r. invoke offline_env lead_state [HumanMessage ''thanks''] = Some r
          \<and> collected (contactInfo (final r)))"
proof -
  have l: "lastUserMessage (messages jane_state) = jane_text"
    by (simp add: jane_state_def lastUserMessage_def HumanMessage_def AIMessage_def)
  have c: "u_contactInfo (fst (contactCollectorNode jane_state)) = Some jane_info"
    using collector_jane [OF l] by (simp add: empty_update_def)
  have t: "collected (contactInfo lead_state)"
    by (simp add: lead_state_def)
  from C6_collected_never_reset [of offline_env jane_state]
    C6_collected_never_reset [of offline_env lead_state "[HumanMessage ''thanks'']"]
  show ?thesis
    using c t by blast
qed


section \<open>Generation\<close>

text \<open>
  C5, as stated: entered with a non-empty \<open>appendMessage\<close>, the generator puts the text
  into the answer and clears \<open>appendMessage\<close>, also when the call to the model fails.
  When the call fails the node returns the apology alone and writes nothing to
  \<open>appendMessage\<close>: the answer does not contain the text and the text stays in the state.
\<close>

theorem C5_failure_keeps_append_message:
  "appendMessage pending_state \<noteq> []
   \<and> u_answer (fst (generatorNode offline_env pending_state)) = Some errorAnswer
   \<and> u_appendMessage (fst (generatorNode offline_env pending_state)) = None
   \<and> str_includes errorAnswer (appendMessage pending_state) = False
   \<and> appendMessage (apply_update pending_state (fst (generatorNode offline_env pending_state)))
       = appendMessage pending_state"
proof -
  have m: "messages pending_state \<noteq> []"
    by (simp add: pending_state_def jane_state_def)
  have a: "appendMessage pending_state = thankYouMessage (Some ''Jane from Acme'')"
    by (simp add: pending_state_def)
  have g: "fst (generatorNode offline_env pending_state) = generation_failed ''Request timed out.''"
    using m by (simp add: generatorNode_def last_content_def Let_def offline_env_def)
  have i: "str_includes errorAnswer (thankYouMessage (Some ''Jane from Acme'')) = False"
    by (simp add: thanks_jane errorAnswer_def)
  show ?thesis
    by (simp add: g a i generation_failed_def empty_update_def apply_update_def channel_def)
       (simp add: thanks_jane)
qed

text \<open>
  C5, amended: entered with a non-empty \<open>appendMessage\<close>, when the call to the model
  succeeds the answer is the model's text, a blank line and the appended text, and
  \<open>appendMessage\<close> is empty after the node; when the call fails (or there is no
  message to answer) the answer is the apology and \<open>appendMessage\<close> is left as it was.
\<close>

theorem C5_append_message_used_on_success:
  "(appendMessage s \<noteq> [] \<and> messages s \<noteq> []
      \<and> chain_invoke e (prompt_context (retrievedDocs s)) (butlast (messages s))
            (content (last (messages s))) = Inr ans \<longrightarrow>
        u_answer (fst (generatorNode e s)) = Some (ans @ ''\<newline>\<newline>'' @ appendMessage s)
        \<and> appendMessage (apply_update s (fst (generatorNode e s))) = [])
   \<and> (appendMessage s \<noteq> []
      \<and> (messages s = []
          \<or> chain_invoke e (prompt_context (retrievedDocs s)) (butlast (messages s))
               (content (last (messages s))) = Inl msg) \<longrightarrow>
        u_answer (fst (generatorNode e s)) = Some errorAnswer
        \<and> appendMessage (apply_update s (fst (generatorNode e s))) = appendMessage s)"
  by (auto simp add: generatorNode_def last_content_def generation_failed_def Let_def
      apply_update_def channel_def replace_reducer_def empty_update_def)

theorem C5_append_message_used_on_success_witness:
  "appendMessage pending_state \<noteq> [] \<and> messages pending_state \<noteq> []
   \<and> chain_invoke scripted_env (prompt_context (retrievedDocs pending_state))
        (butlast (messages pending_state)) (content (last (messages pending_state))) = Inr ''Sure.''
   \<and> u_answer (fst (generatorNode scripted_env pending_state))
        = Some (''Sure.'' @ ''\<newline>\<newline>'' @ appendMessage pending_state)
   \<and> appendMessage (apply_update pending_state (fst (generatorNode scripted_env pending_state))) = []
   \<and> chain_invoke offline_env (prompt_context (retrievedDocs pending_state))
        (butlast (messages pending_state)) (content (last (messages pending_state)))
        = Inl ''Request timed out.''
   \<and> u_answer (fst (generatorNode offline_env pending_state)) = Some errorAnswer
   \<and> appendMessage (apply_update pending_state (fst (generatorNode offline_env pending_state)))
        = appendMessage pending_state"
proof -
  have h: "appendMessage pending_state \<noteq> []" "messages pending_state \<noteq> []"
    "chain_invoke scripted_env (prompt_context (retrievedDocs pending_state))
        (butlast (messages pending_state)) (content (last (messages pending_state))) = Inr ''Sure.''"
    "chain_invoke offline_env (prompt_context (retrievedDocs pending_state))
        (butlast (messages pending_state)) (content (last (messages pending_state)))
        = Inl ''Request timed out.''"
    by (simp_all add: pending_state_def jane_state_def thanks_jane scripted_env_def
        offline_env_def)
  from C5_append_message_used_on_success [of pending_state scripted_env "''Sure.''"]
    C5_append_message_used_on_success [of pending_state offline_env _ "''Request timed out.''"]
  show ?thesis
    using h by blast
qed


section \<open>Failures\<close>

lemma json_prose: "search False jsonRegex llm_prose = None"
  by (simp add: search.simps llm_prose_def jsonRegex_def cls_match_def)

lemma json_broken: "search False jsonRegex llm_broken = Some (llm_broken, [])"
  by (simp add: search.simps llm_broken_def jsonRegex_def cls_match_def)

lemma parse_broken: "JSON_parse llm_broken = None"
  by (simp add: llm_broken_def JSON_parse_def idle_step_def is_word_cu_def is_digit_def
      unescape_def word_value_def json_number_def split_frac_def split_exp_def exp_ok_def
      decimal_value_def digit_val_def Let_def)

lemma collector_cases:
  "snd (contactCollectorNode s) = []
   \<and> (fst (contactCollectorNode s) = empty_update
      \<or> fst (contactCollectorNode s) =
          empty_update\<lparr>u_collectingContact := Some True,
                       u_appendMessage := Some (requestMessage (messages s))\<rparr>
      \<or> (\<exists>info. collected info \<and> email info \<noteq> None
            \<and> fst (contactCollectorNode s) =
                empty_update\<lparr>u_contactInfo := Some info, u_collectingContact := Some False,
                             u_appendMessage := Some (thankYouMessage (name info))\<rparr>))"
proof (cases "search True emailRegex (lastUserMessage (messages s))")
  case None
  then show ?thesis
    by (simp add: contactCollectorNode_def)
next
  case (Some m)
  let ?info = "\<lparr>name = map_option (\<lambda>m. trim (group1 m))
                         (search True nameRegex (lastUserMessage (messages s))),
                 email = Some (fst m),
                 company = map_option (\<lambda>m. trim (group1 m))
                            (search True companyRegex (lastUserMessage (messages s))),
                 collected = True\<rparr>"
  have "fst (contactCollectorNode s) =
          empty_update\<lparr>u_contactInfo := Some ?info, u_collectingContact := Some False,
                       u_appendMessage := Some (thankYouMessage (name ?info))\<rparr>"
    and "snd (contactCollectorNode s) = []"
    using Some by (simp_all add: contactCollectorNode_def Let_def)
  moreover have "collected ?info \<and> email ?info \<noteq> None"
    by simp
  ultimately show ?thesis
    by blast
qed

text \<open>
  C9: no failure of a stage aborts a run; every stage returns an update whatever its
  calls do.
  \<^item> The generator always writes an answer and the assistant message that carries it. When
    the call it makes throws, or when there is no message to read the query from, these are
    the fixed apology, with an error record.
  \<^item> When the call the retriever makes throws, it returns no documents and an error record.
  \<^item> When the call the evaluator makes throws, when the answer holds no match of the JSON
    expression, or when the match does not parse, the evaluator returns the score 0.
  \<^item> The contact collector makes no call and no operation of its text scanning throws on a
    state of this type: on every state it returns one of three updates (nothing, the request
    for the address, the collected contact).
  \<^item> The notifier writes nothing, whatever happens to its POST.
  \<^item> Every run reaches the end of the graph and appends one assistant message, whose text is
    the answer of the run.
\<close>

theorem C9_no_stage_aborts:
  "(\<exists>a. u_answer (fst (generatorNode e s)) = Some a
        \<and> u_messages (fst (generatorNode e s)) = Some [AIMessage a])
   \<and> (messages s \<noteq> []
       \<and> chain_invoke e (prompt_context (retrievedDocs s)) (butlast (messages s))
            (content (last (messages s))) = Inl msg \<longrightarrow>
        fst (generatorNode e s) =
          empty_update\<lparr>u_answer := Some errorAnswer, u_messages := Some [AIMessage errorAnswer],
                       u_errors := Some [''Generation failed: '' @ msg]\<rparr>)
   \<and> (messages s = [] \<longrightarrow>
        fst (generatorNode e s) =
          empty_update\<lparr>u_answer := Some errorAnswer, u_messages := Some [AIMessage errorAnswer],
                       u_errors := Some [''Generation failed: Cannot read properties of undefined (reading 'content')'']\<rparr>)
   \<and> (messages s \<noteq> [] \<and> retriever_invoke e (content (last (messages s))) = Inl msg \<longrightarrow>
        fst (retrieverNode e s) =
          empty_update\<lparr>u_retrievedDocs := Some [], u_errors := Some [''Retrieval failed: '' @ msg]\<rparr>)
   \<and> (\<not> collectingContact s \<and> 3 \<le> length (messages s)
       \<and> llm_invoke e (evaluationPrompt (join ''\<newline>''
            (map (\<lambda>m. mtype m @ '': '' @ content m)
               (drop (length (messages s) - 6) (messages s))))) = Inl msg \<longrightarrow>
        fst (interestEvaluatorNode e s) = empty_update\<lparr>u_interestScore := Some (Num 0)\<rparr>)
   \<and> (\<not> collectingContact s \<and> 3 \<le> length (messages s)
       \<and> llm_invoke e (evaluationPrompt (join ''\<newline>''
            (map (\<lambda>m. mtype m @ '': '' @ content m)
               (drop (length (messages s) - 6) (messages s))))) = Inr text
       \<and> (search False jsonRegex text = None
           \<or> (search False jsonRegex text = Some jm \<and> JSON_parse (fst jm) = None)) \<longrightarrow>
        fst (interestEvaluatorNode e s) = empty_update\<lparr>u_interestScore := Some (Num 0)\<rparr>)
   \<and> (snd (contactCollectorNode s) = []
       \<and> (fst (contactCollectorNode s) = empty_update
          \<or> fst (contactCollectorNode s) =
              empty_update\<lparr>u_collectingContact := Some True,
                           u_appendMessage := Some (requestMessage (messages s))\<rparr>
          \<or> (\<exists>info. collected info \<and> email info \<noteq> None
                \<and> fst (contactCollectorNode s) =
                    empty_update\<lparr>u_contactInfo := Some info, u_collectingContact := Some False,
                                 u_appendMessage := Some (thankYouMessage (name info))\<rparr>)))
   \<and> fst (slackNotifierNode e s) = empty_update
   \<and> (\<exists>r. run e s = Some r
          \<and> messages (final r) = messages s @ [AIMessage (answer (final r))])"
proof -
  have g: "messages s \<noteq> []
       \<and> chain_invoke e (prompt_context (retrievedDocs s)) (butlast (messages s))
            (content (last (messages s))) = Inl msg \<longrightarrow>
        fst (generatorNode e s) =
          empty_update\<lparr>u_answer := Some errorAnswer, u_messages := Some [AIMessage errorAnswer],
                       u_errors := Some [''Generation failed: '' @ msg]\<rparr>"
    by (simp add: generatorNode_def last_content_def generation_failed_def Let_def)
  have g0: "messages s = [] \<longrightarrow>
        fst (generatorNode e s) =
          empty_update\<lparr>u_answer := Some errorAnswer, u_messages := Some [AIMessage errorAnswer],
                       u_errors := Some [''Generation failed: Cannot read properties of undefined (reading 'content')'']\<rparr>"
    by (simp add: generatorNode_def last_content_def generation_failed_def)
  have r: "messages s \<noteq> [] \<and> retriever_invoke e (content (last (messages s))) = Inl msg \<longrightarrow>
        fst (retrieverNode e s) =
          empty_update\<lparr>u_retrievedDocs := Some [], u_errors := Some [''Retrieval failed: '' @ msg]\<rparr>"
    by (simp add: retrieverNode_def last_content_def retrieval_failed_def)
  have v: "\<not> collectingContact s \<and> 3 \<le> length (messages s)
       \<and> llm_invoke e (evaluationPrompt (join ''\<newline>''
            (map (\<lambda>m. mtype m @ '': '' @ content m)
               (drop (length (messages s) - 6) (messages s))))) = Inl msg \<longrightarrow>
        fst (interestEvaluatorNode e s) = empty_update\<lparr>u_interestScore := Some (Num 0)\<rparr>"
    by (simp add: interestEvaluatorNode_def score_update_def Let_def)
  have w: "\<not> collectingContact s \<and> 3 \<le> length (messages s)
       \<and> llm_invoke e (evaluationPrompt (join ''\<newline>''
            (map (\<lambda>m. mtype m @ '': '' @ content m)
               (drop (length (messages s) - 6) (messages s))))) = Inr text
       \<and> (search False jsonRegex text = None
           \<or> (search False jsonRegex text = Some jm \<and> JSON_parse (fst jm) = None)) \<longrightarrow>
        fst (interestEvaluatorNode e s) = empty_update\<lparr>u_interestScore := Some (Num 0)\<rparr>"
    by (auto simp add: interestEvaluatorNode_def score_update_def Let_def)
  have t: "\<exists>r. run e s = Some r
          \<and> messages (final r) = messages s @ [AIMessage (answer (final r))]"
    using messages_after_run [of e s] by (simp add: run_eq)
  note c1 = collector_cases [of s, THEN conjunct1]
  note c2 = collector_cases [of s, THEN conjunct2]
  show ?thesis
    by (intro conjI) (rule generator_answers g g0 r v w c1 c2 notifier_writes t)+
qed

theorem C9_no_stage_aborts_witness:
  "messages jane_state \<noteq> [] \<and> \<not> collectingContact jane_state \<and> 3 \<le> length (messages jane_state)
   \<and> chain_invoke offline_env (prompt_context (retrievedDocs jane_state))
        (butlast (messages jane_state)) (content (last (messages jane_state)))
        = Inl ''Request timed out.''
   \<and> fst (generatorNode offline_env jane_state) =
       empty_update\<lparr>u_answer := Some errorAnswer, u_messages := Some [AIMessage errorAnswer],
                    u_errors := Some [''Generation failed: Request timed out.'']\<rparr>
   \<and> messages default_state = []
   \<and> fst (generatorNode offline_env default_state) =
       empty_update\<lparr>u_answer := Some errorAnswer, u_messages := Some [AIMessage errorAnswer],
                    u_errors := Some [''Generation failed: Cannot read properties of undefined (reading 'content')'']\<rparr>
   \<and> retriever_invoke offline_env (content (last (messages jane_state)))
        = Inl ''connect ECONNREFUSED''
   \<and> fst (retrieverNode offline_env jane_state) =
       empty_update\<lparr>u_retrievedDocs := Some [],
                    u_errors := Some [''Retrieval failed: connect ECONNREFUSED'']\<rparr>
   \<and> llm_invoke offline_env (evaluationPrompt (join ''\<newline>''
            (map (\<lambda>m. mtype m @ '': '' @ content m)
               (drop (length (messages jane_state) - 6) (messages jane_state)))))
        = Inl ''Request timed out.''
   \<and> fst (interestEvaluatorNode offline_env jane_state) =
       empty_update\<lparr>u_interestScore := Some (Num 0)\<rparr>
   \<and> llm_invoke prose_env (evaluationPrompt (join ''\<newline>''
            (map (\<lambda>m. mtype m @ '': '' @ content m)
               (drop (length (messages jane_state) - 6) (messages jane_state)))))
        = Inr llm_prose
   \<and> search False jsonRegex llm_prose = None
   \<and> fst (interestEvaluatorNode prose_env jane_state) =
       empty_update\<lparr>u_interestScore := Some (Num 0)\<rparr>
   \<and> llm_invoke broken_env (evaluationPrompt (join ''\<newline>''
            (map (\<lambda>m. mtype m @ '': '' @ content m)
               (drop (length (messages jane_state) - 6) (messages jane_state)))))
        = Inr llm_broken
   \<and> search False jsonRegex llm_broken = Some (llm_broken, [])
   \<and> JSON_parse (fst (llm_broken, [] :: string list)) = None
   \<and> fst (interestEvaluatorNode broken_env jane_state) =
       empty_update\<lparr>u_interestScore := Some (Num 0)\<rparr>
   \<and> (\<exists>r. run offline_env jane_state = Some r
          \<and> messages (final r) = messages jane_state @ [AIMessage (answer (final r))])"
proof -
  have h: "messages jane_state \<noteq> []" "\<not> collectingContact jane_state"
    "3 \<le> length (messages jane_state)" "messages default_state = []"
    by (simp_all add: jane_state_def default_state_def)
  have c: "chain_invoke offline_env (prompt_context (retrievedDocs jane_state))
        (butlast (messages jane_state)) (content (last (messages jane_state)))
        = Inl ''Request timed out.''"
    "retriever_invoke offline_env (content (last (messages jane_state)))
        = Inl ''connect ECONNREFUSED''"
    "llm_invoke offline_env (evaluationPrompt (join ''\<newline>''
            (map (\<lambda>m. mtype m @ '': '' @ content m)
               (drop (length (messages jane_state) - 6) (messages jane_state)))))
        = Inl ''Request timed out.''"
    by (simp_all add: offline_env_def)
  have p: "llm_invoke prose_env (evaluationPrompt (join ''\<newline>''
            (map (\<lambda>m. mtype m @ '': '' @ content m)
               (drop (length (messages jane_state) - 6) (messages jane_state)))))
        = Inr llm_prose"
    "llm_invoke broken_env (evaluationPrompt (join ''\<newline>''
            (map (\<lambda>m. mtype m @ '': '' @ content m)
               (drop (length (messages jane_state) - 6) (messages jane_state)))))
        = Inr llm_broken"
    by (simp_all add: prose_env_def broken_env_def)
  have j: "JSON_parse (fst (llm_broken, [] :: string list)) = None"
    by (simp add: parse_broken)
  note a = C9_no_stage_aborts [of offline_env jane_state "''Request timed out.''" "[]" "([], [])"]
  note b = C9_no_stage_aborts [of offline_env jane_state "''connect ECONNREFUSED''" "[]" "([], [])"]
  note d = C9_no_stage_aborts [of offline_env default_state "[]" "[]" "([], [])"]
  note f = C9_no_stage_aborts [of prose_env jane_state "[]" llm_prose "([], [])"]
  note k = C9_no_stage_aborts [of broken_env jane_state "[]" llm_broken "(llm_broken, [])"]
  have 1: "fst (generatorNode offline_env jane_state) =
       empty_update\<lparr>u_answer := Some errorAnswer, u_messages := Some [AIMessage errorAnswer],
                    u_errors := Some [''Generation failed: Request timed out.'']\<rparr>"
    using a h c by simp
  have 2: "fst (generatorNode offline_env default_state) =
       empty_update\<lparr>u_answer := Some errorAnswer, u_messages := Some [AIMessage errorAnswer],
                    u_errors := Some [''Generation failed: Cannot read properties of undefined (reading 'content')'']\<rparr>"
    using d h by simp
  have 3: "fst (retrieverNode offline_env jane_state) =
       empty_update\<lparr>u_retrievedDocs := Some [],
                    u_errors := Some [''Retrieval failed: connect ECONNREFUSED'']\<rparr>"
    using b h c by simp
  have 4: "fst (interestEvaluatorNode offline_env jane_state) =
       empty_update\<lparr>u_interestScore := Some (Num 0)\<rparr>"
    using a h c by simp
  have 5: "fst (interestEvaluatorNode prose_env jane_state) =
       empty_update\<lparr>u_interestScore := Some (Num 0)\<rparr>"
    using f h p json_prose by simp
  have 6: "fst (interestEvaluatorNode broken_env jane_state) =
       empty_update\<lparr>u_interestScore := Some (Num 0)\<rparr>"
    using k h p j json_broken by simp
  have 7: "\<exists>r. run offline_env jane_state = Some r
          \<and> messages (final r) = messages jane_state @ [AIMessage (answer (final r))]"
    using a by simp
  show ?thesis
    by (intro conjI) (rule h c p j json_prose json_broken 1 2 3 4 5 6 7)+
qed

text \<open>
  C10: on a state with no message at all no stage crashes. The retriever catches the
  TypeError of reading the last message and returns no documents with a retrieval-failure
  error; the generator catches the same error and returns the apology as the answer and as
  the one assistant message; the run ends with that answer.
\<close>

theorem C10_empty_messages:
  "messages s = [] \<Longrightarrow>
     retrieverNode e s =
       (empty_update\<lparr>u_retrievedDocs := Some [],
          u_errors := Some [''Retrieval failed: Cannot read properties of undefined (reading 'content')'']\<rparr>, [])
     \<and> generatorNode e s =
       (empty_update\<lparr>u_answer := Some errorAnswer, u_messages := Some [AIMessage errorAnswer],
          u_errors := Some [''Generation failed: Cannot read properties of undefined (reading 'content')'']\<rparr>, [])
     \<and> (\<exists>r. run e s = Some r \<and> answer (final r) = errorAnswer
              \<and> messages (final r) = [AIMessage errorAnswer]
              \<and> retrievedDocs (final r) = [])"
proof -
  assume empty: "messages s = []"
  have r: "retrieverNode e s =
      (retrieval_failed ''Cannot read properties of undefined (reading 'content')'', [])"
    using empty by (simp add: retrieverNode_def last_content_def)
  have g: "\<And>s'. messages s' = [] \<Longrightarrow> generatorNode e s' =
      (generation_failed ''Cannot read properties of undefined (reading 'content')'', [])"
    by (simp add: generatorNode_def last_content_def)
  have m: "messages (after_collector e s) = []"
    using empty by (simp add: after_collector_keeps)
  have a: "answer (final (after_run e s)) = errorAnswer"
    by (simp add: final_after_run after_generator_def g [OF m] generation_failed_def
        apply_update_def channel_def replace_reducer_def empty_update_def)
  have ms: "messages (final (after_run e s)) = [AIMessage errorAnswer]"
    using messages_after_run [of e s] a empty by simp
  have d: "retrievedDocs (final (after_run e s)) = []"
    by (simp add: final_after_run after_generator_keeps after_retriever_def r
        retrieval_failed_def apply_update_def channel_def replace_reducer_def empty_update_def)
  show ?thesis
    using r g [OF empty] a ms d
    by (simp add: run_eq retrieval_failed_def generation_failed_def)
qed

theorem C10_empty_messages_witness:
  "messages default_state = []
   \<and> fst (retrieverNode offline_env default_state) =
       empty_update\<lparr>u_retrievedDocs := Some [],
          u_errors := Some [''Retrieval failed: Cannot read properties of undefined (reading 'content')'']\<rparr>
   \<and> u_answer (fst (generatorNode offline_env default_state)) = Some errorAnswer
   \<and> (\<exists>r. run offline_env default_state = Some r \<and> messages (final r) = [AIMessage errorAnswer])"
  using C10_empty_messages [of default_state offline_env]
  by (auto simp add: default_fields)

end
